theory Spec2Isabelle
  imports Complex_Main "HOL-Library.AList"
begin

section \<open>Conventions of the embedding\<close>

text \<open>
  The emulator is TypeScript on Node. A \<^verbatim>\<open>number\<close> that comes from configuration, from a
  fixture or from \<^verbatim>\<open>Math.random()\<close> is a \<^typ>\<open>real\<close> (rounding, NaN and the infinities of
  IEEE doubles are not modelled); a timestamp of \<^verbatim>\<open>Date.now()\<close> is an \<^typ>\<open>int\<close> of
  milliseconds. A string is a \<^typ>\<open>string\<close> of 8-bit characters; the character classes of
  \<^verbatim>\<open>parseInt\<close> and of the URL test below are the ASCII ones. A thrown \<^verbatim>\<open>Error\<close> is a value: its message and its optional
  \<^verbatim>\<open>code\<close> property. \<^verbatim>\<open>undefined\<close> and \<^verbatim>\<open>null\<close> are \<^const>\<open>None\<close>.

  Platform functions whose code is not part of the repository are parameters of the
  functions that call them: the SHA-256 hex digest (\<open>sha\<close>), the value returned by
  \<^verbatim>\<open>Math.random()\<close> (\<open>rnd\<close>), the clock (\<open>now\<close>), \<^verbatim>\<open>randomUUID()\<close>, and the string
  methods \<^verbatim>\<open>trim\<close> and \<^verbatim>\<open>toLowerCase\<close> (\<open>ops\<close>).
\<close>

datatype js_error = Error (message: string) (code: "string option")

section \<open>utils.ts\<close>

definition isSpaceChar :: "char \<Rightarrow> bool" where
  "isSpaceChar c = (c \<in> set [CHR '' '', CHR 0x09, CHR 0x0A, CHR 0x0B, CHR 0x0C, CHR 0x0D])"

definition toLowerChar :: "char \<Rightarrow> char" where
  "toLowerChar c =
     (case map_of (zip ''ABCDEFGHIJKLMNOPQRSTUVWXYZ'' ''abcdefghijklmnopqrstuvwxyz'') c of
        Some l \<Rightarrow> l
      | None \<Rightarrow> c)"

text \<open>\<^verbatim>\<open>hashString(value)\<close> is \<^verbatim>\<open>crypto.createHash("sha256").update(value).digest("hex")\<close>.\<close>

definition hashString :: "(string \<Rightarrow> string) \<Rightarrow> string \<Rightarrow> string" where
  "hashString sha v = sha v"

text \<open>What a SHA-256 hex digest looks like: 64 characters out of \<^verbatim>\<open>0-9a-f\<close>.\<close>

definition isLowerHexChar :: "char \<Rightarrow> bool" where
  "isLowerHexChar c = (c \<in> set ''0123456789abcdef'')"

definition isHexDigest :: "string \<Rightarrow> bool" where
  "isHexDigest s = (length s = 64 \<and> list_all isLowerHexChar s)"

subsection \<open>Number.parseInt(s, 16)\<close>

definition hexDigitValue :: "char \<Rightarrow> nat option" where
  "hexDigitValue c =
     map_of (zip ''0123456789abcdef'' [0 ..< 16] @ zip ''ABCDEF'' [10 ..< 16]) c"

fun hexPrefix :: "string \<Rightarrow> nat list" where
  "hexPrefix [] = []"
| "hexPrefix (c # cs) =
     (case hexDigitValue c of None \<Rightarrow> [] | Some d \<Rightarrow> d # hexPrefix cs)"

definition fromDigits16 :: "nat list \<Rightarrow> nat" where
  "fromDigits16 ds = foldl (\<lambda>acc d. acc * 16 + d) 0 ds"

text \<open>
  ECMAScript's \<^verbatim>\<open>parseInt\<close> with radix 16: leading white space is skipped, a sign is read,
  a \<^verbatim>\<open>0x\<close> prefix is dropped, and the longest run of hexadecimal digits is the value.
  \<^const>\<open>None\<close> is \<^verbatim>\<open>NaN\<close> (no digit at all).
\<close>

definition parseInt16 :: "string \<Rightarrow> int option" where
  "parseInt16 s =
     (let s1 = dropWhile isSpaceChar s;
          negative = (take 1 s1 = ''-'');
          s2 = (if take 1 s1 = ''-'' \<or> take 1 s1 = ''+'' then drop 1 s1 else s1);
          s3 = (if take 2 s2 = ''0x'' \<or> take 2 s2 = ''0X'' then drop 2 s2 else s2);
          z = hexPrefix s3
      in if z = [] then None
         else Some ((if negative then - 1 else 1) * int (fromDigits16 z)))"

text \<open>
  \<^verbatim>\<open>a % n\<close> on integers takes the sign of the dividend; \<^verbatim>\<open>items[i]\<close> is \<^verbatim>\<open>undefined\<close>
  for an index that is not in range.
\<close>

definition jsRem :: "int \<Rightarrow> int \<Rightarrow> int" where
  "jsRem a n = (if a < 0 then - ((- a) mod n) else a mod n)"

definition jsIndex :: "'a list \<Rightarrow> int option \<Rightarrow> 'a option" where
  "jsIndex items i =
     (case i of
        None \<Rightarrow> None
      | Some j \<Rightarrow> if 0 \<le> j \<and> nat j < length items then Some (items ! nat j) else None)"

definition selectDeterministic ::
  "(string \<Rightarrow> string) \<Rightarrow> 'a list \<Rightarrow> string \<Rightarrow> js_error + 'a option" where
  "selectDeterministic sha items key =
     (if length items = 0 then Inl (Error ''Cannot select from empty list'' None)
      else
        let hash = hashString sha key;
            segment = take 8 hash;
            index = map_option (\<lambda>v. jsRem v (int (length items))) (parseInt16 segment)
        in Inr (jsIndex items index))"

text \<open>
  The algorithm in the specification's words: the 8-character prefix of the digest read as
  an unsigned base-16 number, reduced modulo the number of candidates.
\<close>

definition hexVal :: "char \<Rightarrow> nat" where
  "hexVal c = (case hexDigitValue c of Some d \<Rightarrow> d | None \<Rightarrow> 0)"

definition spec_select_index :: "(string \<Rightarrow> string) \<Rightarrow> nat \<Rightarrow> string \<Rightarrow> nat" where
  "spec_select_index sha n key = fromDigits16 (map hexVal (take 8 (sha key))) mod n"

subsection \<open>withJitter, percentToHit\<close>

text \<open>\<open>rnd\<close> is the value \<^verbatim>\<open>Math.random()\<close> returns, a number in \<open>[0, 1)\<close>.\<close>

definition withJitter :: "real \<Rightarrow> real \<Rightarrow> real \<Rightarrow> real" where
  "withJitter rnd base jitter =
     (if jitter \<le> 0 then max 0 base
      else
        let delta = of_int \<lfloor>rnd * (jitter * 2 + 1)\<rfloor> - jitter
        in max 0 (base + delta))"

definition percentToHit :: "real \<Rightarrow> real \<Rightarrow> bool" where
  "percentToHit rnd pct =
     (if pct \<le> 0 then False
      else if pct \<ge> 100 then True
      else rnd * 100 < pct)"

definition ensureLeadingSlash :: "string \<Rightarrow> string" where
  "ensureLeadingSlash pathname =
     (if take 1 pathname \<noteq> ''/'' then ''/'' @ pathname else pathname)"

subsection \<open>sanitizeMediaPath\<close>

text \<open>\<^verbatim>\<open>hay.includes(needle)\<close>: the needle occurs at some position of the string.\<close>

fun str_includes :: "string \<Rightarrow> string \<Rightarrow> bool" where
  "str_includes [] needle = (needle = [])"
| "str_includes (c # cs) needle =
     (take (length needle) (c # cs) = needle \<or> str_includes cs needle)"

text \<open>
  \<^verbatim>\<open>.replace(/\.\.+/g, ".")\<close>: scanning from the left, a dot that is followed by a dot
  starts a match; the match takes every dot that follows and is replaced by one dot.
\<close>

function replaceDotRuns :: "string \<Rightarrow> string" where
  "replaceDotRuns [] = []"
| "replaceDotRuns (c # cs) =
     (if c = CHR ''.'' \<and> take 1 cs = ''.''
      then CHR ''.'' # replaceDotRuns (dropWhile (\<lambda>x. x = CHR ''.'') cs)
      else c # replaceDotRuns cs)"
  by pat_completeness auto
termination
  by (relation "measure length") (auto simp: less_Suc_eq_le length_dropWhile_le)

text \<open>The constant \<^verbatim>\<open>normalized\<close> of \<^verbatim>\<open>sanitizeMediaPath\<close>.\<close>

definition normalizedPath :: "string \<Rightarrow> string" where
  "normalizedPath input =
     (let base = takeWhile (\<lambda>c. c \<noteq> CHR ''?'') input
      in replaceDotRuns
           (dropWhile (\<lambda>c. c = CHR ''/'')
              (map (\<lambda>c. if c = CHR 0x5C then CHR ''/'' else c) base)))"

definition sanitizeMediaPath :: "string \<Rightarrow> js_error + string" where
  "sanitizeMediaPath input =
     (let normalized = normalizedPath input
      in if str_includes normalized ''..'' then Inl (Error ''INVALID_MEDIA_PATH'' None)
         else Inr normalized)"

section \<open>types.ts\<close>

text \<open>
  A field keeps the name it has in the source, with a prefix where two interfaces share a
  name or the name is taken (\<open>sp_at\<close> is \<^verbatim>\<open>at\<close>; \<open>s_\<close> for \<^verbatim>\<open>SessionRecord\<close>, \<open>fx_\<close> for \<^verbatim>\<open>LoadedFixture\<close>, \<open>d_\<close> for the
  entry data a caller hands to \<^verbatim>\<open>putTurn\<close>). A field name is a constant, so a
  parameter that the source calls \<^verbatim>\<open>personaId\<close> or \<^verbatim>\<open>fixtureId\<close> is \<open>persona\<close> or
  \<open>fid\<close> here. A value of type \<^verbatim>\<open>unknown\<close> is a
  \<open>json\<close>; an object the emulator only passes through (\<^verbatim>\<open>sidecar\<close>, \<^verbatim>\<open>with\<close>) is its
  JSON text.
\<close>

datatype json = JNum real | JStr string | JBool bool | JNull

type_synonym PersonaRef = "string \<times> string option"

record TimelineTrack =
  track_type :: string
  track_id :: string
  source_url :: "string option"
  offset :: "real option"
  duration :: "real option"

record TimelineSwapPoint =
  sp_at :: real
  replace :: string
  with_source :: string

record TimelineShareRef =
  share_id :: string
  ttl_s :: real
  poster :: "string option"
  expires_at :: "string option"

record TimelineV1 =
  version :: string
  clock :: string
  start_at :: string
  sources_badge :: "bool option"
  tracks :: "TimelineTrack list"
  swap_points :: "TimelineSwapPoint list option"
  sidecar :: "string option"
  share_ref :: "TimelineShareRef option"
  meta :: "(string \<times> json) list option"

record LoadedFixture =
  fx_id :: string
  fx_persona_id :: string
  swap_enabled :: "bool option"
  share_enabled :: "bool option"
  idle_after_ms :: "real option"
  fx_timeline :: TimelineV1

record SessionRecord =
  s_id :: string
  s_token :: string
  s_mode :: string
  s_personas :: "PersonaRef list"
  s_createdAt :: int
  s_expiresAt :: int

record MissFlags =
  tts :: "bool option"
  clip :: "bool option"

record LatencyMs =
  audio :: real
  clip_ms :: real

record TurnCacheEntry =
  requestId :: string
  fixtureId :: string
  createdAt :: int
  expiresAt :: int
  bodyHash :: string
  timeline :: TimelineV1
  personaId :: string
  idempotencyKey :: string
  miss :: "MissFlags option"
  latencyMs :: LatencyMs

record TurnEntryData =
  d_requestId :: string
  d_fixtureId :: string
  d_timeline :: TimelineV1
  d_personaId :: string
  d_miss :: "MissFlags option"
  d_latencyMs :: LatencyMs

record IdempotencyResult =
  entry :: TurnCacheEntry
  reused :: bool

record TurnRequestBody =
  audio_url :: "string option"
  transcript :: "(string \<times> string option) option"
  transcript_hint :: "string option"
  persona_id :: string
  session_id :: "string option"

record TurnResponseBody =
  request_id :: string
  policy_pair_audio_only :: bool
  fixture_id :: string

section \<open>config.ts\<close>

record EmulatorConfig =
  pairAudioOnly :: bool
  latency_tts :: real
  latency_clip :: real
  latency_jitter :: real
  missPct_tts :: real
  missPct_clip :: real
  swapEnabled :: bool
  shareEnabled :: bool
  shareTtlMinutes :: real
  sessionTtlSeconds :: int
  idempotencyTtlSeconds :: int
  sseBackoffSequenceMs :: "real list"

section \<open>sessionStore.ts\<close>

text \<open>
  A JavaScript \<^verbatim>\<open>Map\<close> is an association list in insertion order: \<^verbatim>\<open>get\<close> is
  \<^const>\<open>map_of\<close>, \<^verbatim>\<open>set\<close> is \<^const>\<open>AList.update\<close> (a present key keeps its place, a new
  one goes to the end), \<^verbatim>\<open>delete\<close> is \<^const>\<open>AList.delete\<close>. An inner \<^verbatim>\<open>Map\<close> that the
  source mutates in place is written back to the outer one. One call reads the clock
  once: \<open>now\<close> is the value of every \<^verbatim>\<open>Date.now()\<close> during the call.
\<close>

type_synonym TurnCache = "(string \<times> TurnCacheEntry) list"

record SessionStore =
  sessions :: "(string \<times> SessionRecord) list"
  idempotency :: "(string \<times> TurnCache) list"
  pendingTurns :: "(string \<times> TurnCacheEntry list) list"

definition isExpired :: "int \<Rightarrow> int \<Rightarrow> bool" where
  "isExpired now timestamp = (timestamp \<le> now)"

definition createSession ::
  "EmulatorConfig \<Rightarrow> int \<Rightarrow> string \<Rightarrow> string \<Rightarrow> string \<Rightarrow> PersonaRef list \<Rightarrow> SessionStore
     \<Rightarrow> SessionRecord \<times> SessionStore" where
  "createSession cfg now rid rtoken rmode rpersonas st =
     (let created = now;
          expires = created + sessionTtlSeconds cfg * 1000;
          session = \<lparr>s_id = rid, s_token = rtoken, s_mode = rmode, s_personas = rpersonas,
                     s_createdAt = created, s_expiresAt = expires\<rparr>
      in (session, st\<lparr>sessions := AList.update (s_id session) session (sessions st)\<rparr>))"

definition getSession :: "int \<Rightarrow> SessionStore \<Rightarrow> string \<Rightarrow> SessionRecord option \<times> SessionStore" where
  "getSession now st sessionId =
     (case map_of (sessions st) sessionId of
        None \<Rightarrow> (None, st)
      | Some session \<Rightarrow>
          if isExpired now (s_expiresAt session)
          then (None, st\<lparr>sessions := AList.delete sessionId (sessions st),
                          idempotency := AList.delete sessionId (idempotency st),
                          pendingTurns := AList.delete sessionId (pendingTurns st)\<rparr>)
          else (Some session, st))"

text \<open>
  \<open>sha\<close> is the SHA-256 hex digest and \<open>stringify\<close> is \<^verbatim>\<open>JSON.stringify(body ?? {})\<close>.
\<close>

definition putTurn ::
  "(string \<Rightarrow> string) \<Rightarrow> ('b \<Rightarrow> string) \<Rightarrow> EmulatorConfig \<Rightarrow> int \<Rightarrow> SessionStore
     \<Rightarrow> string \<Rightarrow> string \<Rightarrow> 'b \<Rightarrow> TurnEntryData
     \<Rightarrow> (js_error + IdempotencyResult) \<times> SessionStore" where
  "putTurn sha stringify cfg now st sessionId key body entryData =
     (let hash = hashString sha (stringify body);
          (session, st1) = getSession now st sessionId
      in case session of
           None \<Rightarrow> (Inl (Error ''SESSION_NOT_FOUND'' None), st1)
         | Some _ \<Rightarrow>
             let st2 = (if map_of (idempotency st1) sessionId = None
                        then st1\<lparr>idempotency := AList.update sessionId [] (idempotency st1)\<rparr>
                        else st1);
                 sessionCache = (case map_of (idempotency st2) sessionId of
                                   Some c \<Rightarrow> c | None \<Rightarrow> [])
             in case map_of sessionCache key of
                  Some cached \<Rightarrow>
                    if bodyHash cached \<noteq> hash
                    then (Inl (Error ''IDEMPOTENCY_BODY_MISMATCH''
                                 (Some ''IDEMPOTENCY_BODY_MISMATCH'')), st2)
                    else (Inr \<lparr>entry = cached, reused = True\<rparr>, st2)
                | None \<Rightarrow>
                    let created = now;
                        e = \<lparr>requestId = d_requestId entryData,
                             fixtureId = d_fixtureId entryData,
                             createdAt = created,
                             expiresAt = created + idempotencyTtlSeconds cfg * 1000,
                             bodyHash = hash,
                             timeline = d_timeline entryData,
                             personaId = d_personaId entryData,
                             idempotencyKey = key,
                             miss = d_miss entryData,
                             latencyMs = d_latencyMs entryData\<rparr>
                    in (Inr \<lparr>entry = e, reused = False\<rparr>,
                        st2\<lparr>idempotency :=
                              AList.update sessionId (AList.update key e sessionCache)
                                (idempotency st2)\<rparr>))"

definition enqueueTurn :: "SessionStore \<Rightarrow> string \<Rightarrow> TurnCacheEntry \<Rightarrow> SessionStore" where
  "enqueueTurn st sessionId e =
     (let st1 = (if map_of (pendingTurns st) sessionId = None
                 then st\<lparr>pendingTurns := AList.update sessionId [] (pendingTurns st)\<rparr>
                 else st);
          queue = (case map_of (pendingTurns st1) sessionId of Some q \<Rightarrow> q | None \<Rightarrow> [])
      in st1\<lparr>pendingTurns := AList.update sessionId (queue @ [e]) (pendingTurns st1)\<rparr>)"

definition takePendingTurns :: "SessionStore \<Rightarrow> string \<Rightarrow> TurnCacheEntry list \<times> SessionStore" where
  "takePendingTurns st sessionId =
     (let queue = (case map_of (pendingTurns st) sessionId of Some q \<Rightarrow> q | None \<Rightarrow> [])
      in (queue, st\<lparr>pendingTurns := AList.update sessionId [] (pendingTurns st)\<rparr>))"

text \<open>
  The three loops of \<^verbatim>\<open>cleanupExpired\<close>. Each runs over the entries its \<^verbatim>\<open>Map\<close> had when
  the loop started: the only key a step deletes is the one it is visiting.
\<close>

fun sweepSessions :: "int \<Rightarrow> string list \<Rightarrow> SessionStore \<Rightarrow> SessionStore" where
  "sweepSessions nowTs [] st = st"
| "sweepSessions nowTs (sessionId # ks) st =
     sweepSessions nowTs ks
       (case map_of (sessions st) sessionId of
          Some session \<Rightarrow>
            if s_expiresAt session \<le> nowTs
            then st\<lparr>sessions := AList.delete sessionId (sessions st),
                    idempotency := AList.delete sessionId (idempotency st),
                    pendingTurns := AList.delete sessionId (pendingTurns st)\<rparr>
            else st
        | None \<Rightarrow> st)"

fun sweepEntries :: "int \<Rightarrow> TurnCache \<Rightarrow> TurnCache \<Rightarrow> TurnCache" where
  "sweepEntries nowTs [] entries = entries"
| "sweepEntries nowTs ((key, e) # rest) entries =
     sweepEntries nowTs rest
       (if expiresAt e \<le> nowTs then AList.delete key entries else entries)"

fun sweepPartitions ::
  "int \<Rightarrow> (string \<times> TurnCache) list \<Rightarrow> (string \<times> TurnCache) list
     \<Rightarrow> (string \<times> TurnCache) list" where
  "sweepPartitions nowTs [] idem = idem"
| "sweepPartitions nowTs ((sessionId, entries) # rest) idem =
     (let entries' = sweepEntries nowTs entries entries
      in sweepPartitions nowTs rest
           (if length entries' = 0 then AList.delete sessionId idem
            else AList.update sessionId entries' idem))"

definition cleanupExpired :: "int \<Rightarrow> SessionStore \<Rightarrow> SessionStore" where
  "cleanupExpired now st =
     (let nowTs = now;
          st1 = sweepSessions nowTs (map fst (sessions st)) st
      in st1\<lparr>idempotency := sweepPartitions nowTs (idempotency st1) (idempotency st1)\<rparr>)"

section \<open>fixtures.ts\<close>

text \<open>
  \<^verbatim>\<open>String.prototype.trim\<close> and \<^verbatim>\<open>String.prototype.toLowerCase\<close> are functions of the
  platform: they work on the whole of Unicode (white space such as U+00A0, capitals
  outside ASCII). They are parameters of \<^verbatim>\<open>normalizeKey\<close> and of every function that
  calls it.
\<close>

record StringOps =
  str_trim :: "string \<Rightarrow> string"
  str_toLowerCase :: "string \<Rightarrow> string"

definition normalizeKey :: "StringOps \<Rightarrow> string \<Rightarrow> string" where
  "normalizeKey ops v = str_toLowerCase ops (str_trim ops v)"

definition buildOverrideKey :: "StringOps \<Rightarrow> string \<Rightarrow> string \<Rightarrow> string" where
  "buildOverrideKey ops persona discriminator =
     normalizeKey ops persona @ ''::'' @ normalizeKey ops discriminator"



record FixtureRegistry =
  fixtureMap :: "(string \<times> LoadedFixture) list"
  personaIndex :: "(string \<times> LoadedFixture list) list"
  overrides :: "(string \<times> string) list"


definition getFixtureById :: "FixtureRegistry \<Rightarrow> string \<Rightarrow> LoadedFixture option" where
  "getFixtureById reg fid = map_of (fixtureMap reg) fid"

definition getAllFixtures :: "FixtureRegistry \<Rightarrow> LoadedFixture list" where
  "getAllFixtures reg = map snd (fixtureMap reg)"

definition getFixturesByPersona ::
  "StringOps \<Rightarrow> FixtureRegistry \<Rightarrow> string \<Rightarrow> LoadedFixture list" where
  "getFixturesByPersona ops reg persona =
     (let normalized = normalizeKey ops persona
      in if normalized = ''*'' then getAllFixtures reg
         else case map_of (personaIndex reg) normalized of
                Some l \<Rightarrow> if length l > 0 then l else getAllFixtures reg
              | None \<Rightarrow> getAllFixtures reg)"

text \<open>A string in a condition: \<^verbatim>\<open>undefined\<close> and the empty string are falsy.\<close>

definition truthyStr :: "string option \<Rightarrow> bool" where
  "truthyStr v = (case v of None \<Rightarrow> False | Some x \<Rightarrow> x \<noteq> [])"

definition resolveOverride ::
  "StringOps \<Rightarrow> FixtureRegistry \<Rightarrow> string \<Rightarrow> string \<Rightarrow> string option" where
  "resolveOverride ops reg persona discriminator =
     (let personaSpecificKey = buildOverrideKey ops persona discriminator
      in if truthyStr (map_of (overrides reg) personaSpecificKey)
         then map_of (overrides reg) personaSpecificKey
         else
           let wildcardDiscriminator = buildOverrideKey ops persona ''*''
           in if truthyStr (map_of (overrides reg) wildcardDiscriminator)
              then map_of (overrides reg) wildcardDiscriminator
              else
                let wildcardPersonaKey = buildOverrideKey ops ''*'' discriminator
                in if truthyStr (map_of (overrides reg) wildcardPersonaKey)
                   then map_of (overrides reg) wildcardPersonaKey
                   else map_of (overrides reg) ''*::*'')"

definition quoted :: "string \<Rightarrow> string" where
  "quoted x = [CHR 0x27] @ x @ [CHR 0x27]"

definition selectFixture ::
  "(string \<Rightarrow> string) \<Rightarrow> StringOps \<Rightarrow> FixtureRegistry \<Rightarrow> string \<Rightarrow> string
     \<Rightarrow> js_error + LoadedFixture option" where
  "selectFixture sha ops reg persona discriminator =
     (let normalizedPersona = normalizeKey ops persona;
          normalizedDiscriminator = normalizeKey ops discriminator;
          override = resolveOverride ops reg normalizedPersona normalizedDiscriminator
      in if truthyStr override
         then (case override of
                 None \<Rightarrow> Inr None
               | Some fid \<Rightarrow>
                   (case getFixtureById reg fid of
                      None \<Rightarrow>
                        Inl (Error (''Override fixture '' @ quoted fid @ '' not found'') None)
                    | Some fixture \<Rightarrow> Inr (Some fixture)))
         else
           let candidates = getFixturesByPersona ops reg persona
           in if length candidates = 0
              then Inl (Error (''No fixtures registered for persona '' @ quoted persona) None)
              else selectDeterministic sha candidates (persona @ '':'' @ discriminator))"

section \<open>app.ts: applyFixtureToggles\<close>

definition cloneTimeline :: "TimelineV1 \<Rightarrow> TimelineV1" where
  "cloneTimeline source = source"

definition trackEndMs :: "TimelineTrack \<Rightarrow> real" where
  "trackEndMs track =
     ((case offset track of Some x \<Rightarrow> x | None \<Rightarrow> 0)
      + (case duration track of Some x \<Rightarrow> x | None \<Rightarrow> 0)) * 1000"

definition estimateTimelineDurationMs :: "TimelineV1 \<Rightarrow> real" where
  "estimateTimelineDurationMs tln =
     (let durations = filter (\<lambda>v. v > 0) (map trackEndMs (tracks tln))
      in case durations of [] \<Rightarrow> 4000 | d # ds \<Rightarrow> foldl max d ds)"

definition truthyFlag :: "bool option \<Rightarrow> bool" where
  "truthyFlag v = (v = Some True)"

text \<open>\<^verbatim>\<open>a ?? b\<close> on a property of \<^verbatim>\<open>meta\<close>: \<^verbatim>\<open>undefined\<close> and \<^verbatim>\<open>null\<close> give way.\<close>

definition nullish :: "json option \<Rightarrow> json option" where
  "nullish v = (case v of Some JNull \<Rightarrow> None | _ \<Rightarrow> v)"

definition setMeta :: "string \<Rightarrow> json \<Rightarrow> TimelineV1 \<Rightarrow> TimelineV1" where
  "setMeta k v tln =
     tln\<lparr>meta := Some (AList.update k v (case meta tln of Some m \<Rightarrow> m | None \<Rightarrow> []))\<rparr>"

definition minutesFromNow :: "int \<Rightarrow> real \<Rightarrow> real" where
  "minutesFromNow now minutes = of_int now + (minutes * 60) * 1000"

text \<open>\<open>toISO\<close> is \<^verbatim>\<open>Date.prototype.toISOString\<close> on a time in milliseconds.\<close>

definition applyFixtureToggles ::
  "EmulatorConfig \<Rightarrow> int \<Rightarrow> (real \<Rightarrow> string) \<Rightarrow> LoadedFixture \<Rightarrow> MissFlags \<Rightarrow> TimelineV1" where
  "applyFixtureToggles cfg now toISO fixture m =
     (let t0 = cloneTimeline (fx_timeline fixture);
          t1 = t0\<lparr>meta := Some (case meta t0 of Some x \<Rightarrow> x | None \<Rightarrow> [])\<rparr>;
          idleMs = (case idle_after_ms fixture of
                      Some n \<Rightarrow> JNum n
                    | None \<Rightarrow>
                        (case nullish (map_of (case meta t1 of Some x \<Rightarrow> x | None \<Rightarrow> [])
                                         ''stage_idle_after_ms'') of
                           Some v \<Rightarrow> v
                         | None \<Rightarrow> JNum (estimateTimelineDurationMs t1)));
          t2 = setMeta ''fixture_id'' (JStr (fx_id fixture)) t1;
          t3 = setMeta ''stage_idle_after_ms'' idleMs t2;
          t4 = (if \<not> swapEnabled cfg \<or> swap_enabled fixture = Some False
                then t3\<lparr>swap_points := Some []\<rparr> else t3);
          t5 = (if \<not> shareEnabled cfg \<or> share_enabled fixture = Some False
                then t4\<lparr>share_ref := None\<rparr>
                else case share_ref t4 of
                       Some sr \<Rightarrow>
                         t4\<lparr>share_ref :=
                               Some (sr\<lparr>ttl_s := shareTtlMinutes cfg * 60,
                                        expires_at :=
                                          Some (toISO (minutesFromNow now (shareTtlMinutes cfg)))\<rparr>)\<rparr>
                     | None \<Rightarrow> t4);
          t6 = (if truthyFlag (clip m)
                then setMeta ''miss_clip'' (JBool True)
                       (t5\<lparr>tracks := filter (\<lambda>track. track_type track \<noteq> ''video'') (tracks t5),
                           swap_points := Some []\<rparr>)
                else t5);
          t7 = (if truthyFlag (tts m) then setMeta ''miss_tts'' (JBool True) t6 else t6);
          t8 = (if pairAudioOnly cfg then setMeta ''pair_audio_only'' (JBool True) t7 else t7)
      in t8)"

section \<open>sse.ts\<close>

text \<open>
  What is written on a subscriber's response is a list of frames: \<^verbatim>\<open>writeRetry\<close> writes a
  \<open>Retry\<close>, \<^verbatim>\<open>writeEvent\<close> an \<open>Event\<close> with its name, \<^verbatim>\<open>writeMessage\<close> a \<open>Message\<close>. A
  \<^verbatim>\<open>setTimeout\<close> is a record of the delay and of what the callback observes and writes;
  \<open>timers\<close> holds the pending ones. The heartbeat interval and the client gauge are left
  out: no turn reads them.
\<close>

record TrackEnvelope =
  kind :: string
  url :: string
  mime_type :: string

record TimelineEnvelope =
  turn_id :: string
  env_session_id :: string
  env_swap_points :: "int list"
  env_tracks :: "TrackEnvelope list"
  env_sidecar :: "string option"
  env_sources_badge :: bool
  env_citations_ref :: "string option"
  env_share_ref :: "TimelineShareRef option"

datatype stage_payload = StopIdlePayload string | PlayIdlePayload real string

datatype sse_data =
    MissData string string
  | StageData string stage_payload
  | TimelineData TimelineEnvelope
  | StageHintsData "TimelineSwapPoint list option"
  | BackoffData "real list"

datatype sse_frame = Retry real | Event string sse_data | Message sse_data

record ScheduledTimer =
  delay :: real
  observe :: "(string \<times> real) option"
  payload :: sse_data

record ManagedClient =
  c_sessionId :: string
  res :: "sse_frame list"
  timers :: "ScheduledTimer list"
  closed :: bool

type_synonym SseHub = "(string \<times> ManagedClient list) list"

definition computeTimelineDuration :: "TurnCacheEntry \<Rightarrow> real" where
  "computeTimelineDuration e =
     (let durations = filter (\<lambda>v. v > 0) (map trackEndMs (tracks (timeline e)))
      in case durations of
           [] \<Rightarrow>
             (case share_ref (timeline e) of
                Some sr \<Rightarrow> if ttl_s sr \<noteq> 0 then ttl_s sr * 1000 else 4000
              | None \<Rightarrow> 4000)
         | d # ds \<Rightarrow> foldl max d ds)"

definition writeEvent :: "ManagedClient \<Rightarrow> string \<Rightarrow> sse_data \<Rightarrow> ManagedClient" where
  "writeEvent client ev d =
     (if closed client then client else client\<lparr>res := res client @ [Event ev d]\<rparr>)"

definition writeMessage :: "ManagedClient \<Rightarrow> sse_data \<Rightarrow> ManagedClient" where
  "writeMessage client d =
     (if closed client then client else client\<lparr>res := res client @ [Message d]\<rparr>)"

definition writeRetry :: "ManagedClient \<Rightarrow> real \<Rightarrow> ManagedClient" where
  "writeRetry client retryMs = client\<lparr>res := res client @ [Retry retryMs]\<rparr>"

text \<open>\<^verbatim>\<open>client.timers.push(setTimeout(callback, delay))\<close>.\<close>

definition pushTimer :: "ManagedClient \<Rightarrow> ScheduledTimer \<Rightarrow> ManagedClient" where
  "pushTimer client t = client\<lparr>timers := timers client @ [t]\<rparr>"

definition hasClients :: "SseHub \<Rightarrow> string \<Rightarrow> bool" where
  "hasClients h sessionId =
     (case map_of h sessionId of Some targets \<Rightarrow> length targets > 0 | None \<Rightarrow> False)"

definition addClient :: "EmulatorConfig \<Rightarrow> SseHub \<Rightarrow> string \<Rightarrow> SseHub" where
  "addClient cfg h sessionId =
     (let client = \<lparr>c_sessionId = sessionId, res = [], timers = [], closed = False\<rparr>;
          h1 = (if map_of h sessionId = None then AList.update sessionId [] h else h);
          c1 = writeRetry client
                 (case sseBackoffSequenceMs cfg of [] \<Rightarrow> 1000 | x # _ \<Rightarrow> x);
          c2 = writeEvent c1 ''sse_backoff'' (BackoffData (sseBackoffSequenceMs cfg))
      in AList.update sessionId
           ((case map_of h1 sessionId of Some targets \<Rightarrow> targets | None \<Rightarrow> []) @ [c2]) h1)"

subsection \<open>The client envelope of a timeline\<close>

definition startsWith :: "string \<Rightarrow> string \<Rightarrow> bool" where
  "startsWith x pre = (take (length pre) x = pre)"

text \<open>\<^verbatim>\<open>/^https?:\/\//i.test(raw)\<close>.\<close>

definition isHttpUrl :: "string \<Rightarrow> bool" where
  "isHttpUrl raw =
     (startsWith (map toLowerChar raw) ''http://'' \<or> startsWith (map toLowerChar raw) ''https://'')"

definition trackEnvelope :: "TimelineTrack \<Rightarrow> TrackEnvelope" where
  "trackEnvelope track =
     (let raw = (case source_url track of Some u \<Rightarrow> u | None \<Rightarrow> []);
          u = (if \<not> isHttpUrl raw
               then (if startsWith raw ''/media/'' then drop 7 raw
                     else if startsWith raw ''/'' then drop 1 raw else raw)
               else raw);
          k = track_type track;
          mt = (if k = ''audio'' then ''audio/wav''
                else if k = ''video'' then ''video/mp4''
                else if k = ''captions'' then ''text/vtt'' else ''application/octet-stream'')
      in \<lparr>kind = k, url = u, mime_type = mt\<rparr>)"

text \<open>\<^verbatim>\<open>Math.round\<close> rounds a half up.\<close>

definition mathRound :: "real \<Rightarrow> int" where
  "mathRound x = \<lfloor>x + 1 / 2\<rfloor>"

definition timelineEnvelope :: "ManagedClient \<Rightarrow> TurnCacheEntry \<Rightarrow> TimelineEnvelope" where
  "timelineEnvelope client e =
     (let t = timeline e
      in \<lparr>turn_id = requestId e,
          env_session_id = c_sessionId client,
          env_swap_points =
            map (\<lambda>sp. mathRound (sp_at sp * 1000))
              (case swap_points t of Some sps \<Rightarrow> sps | None \<Rightarrow> []),
          env_tracks = map trackEnvelope (tracks t),
          env_sidecar = sidecar t,
          env_sources_badge = (sources_badge t = Some True),
          env_citations_ref = None,
          env_share_ref = share_ref t\<rparr>)"

subsection \<open>dispatchTurn and broadcastTurns\<close>

definition inc :: "(string \<Rightarrow> nat) \<Rightarrow> string \<Rightarrow> (string \<Rightarrow> nat)" where
  "inc counter label = counter(label := counter label + 1)"

definition missTts :: "TurnCacheEntry \<Rightarrow> bool" where
  "missTts e = (case miss e of Some m \<Rightarrow> truthyFlag (tts m) | None \<Rightarrow> False)"

definition missClip :: "TurnCacheEntry \<Rightarrow> bool" where
  "missClip e = (case miss e of Some m \<Rightarrow> truthyFlag (clip m) | None \<Rightarrow> False)"

definition hasSwapPoints :: "TurnCacheEntry \<Rightarrow> bool" where
  "hasSwapPoints e =
     (case swap_points (timeline e) of Some sps \<Rightarrow> length sps > 0 | None \<Rightarrow> False)"

text \<open>The constant \<^verbatim>\<open>idleAfterMs\<close> of \<^verbatim>\<open>dispatchTurn\<close>.\<close>

definition idleAfterMs :: "TurnCacheEntry \<Rightarrow> real" where
  "idleAfterMs e =
     (let stageIdle = (case meta (timeline e) of
                         Some m \<Rightarrow> map_of m ''stage_idle_after_ms'' | None \<Rightarrow> None)
      in case stageIdle of
           Some (JNum n) \<Rightarrow> n
         | _ \<Rightarrow> computeTimelineDuration e)"

definition dispatchTurn ::
  "(string \<Rightarrow> nat) \<times> ManagedClient \<Rightarrow> TurnCacheEntry \<Rightarrow> (string \<Rightarrow> nat) \<times> ManagedClient" where
  "dispatchTurn mc_client e =
     (let (mc, client) = mc_client;
          (mc1, c1) = (if missTts e
                       then (inc mc ''tts'',
                             writeEvent client ''miss'' (MissData ''tts'' (requestId e)))
                       else (mc, client));
          (mc2, c2) = (if missClip e
                       then (inc mc1 ''clip'',
                             writeEvent c1 ''miss'' (MissData ''clip'' (requestId e)))
                       else (mc1, c1));
          c3 = writeMessage c2 (StageData ''stage.stop_idle'' (StopIdlePayload ''new_turn''));
          c4 = pushTimer c3
                 \<lparr>delay = audio (latencyMs e),
                  observe = Some (''audio'', audio (latencyMs e)),
                  payload = TimelineData (timelineEnvelope c3 e)\<rparr>;
          c5 = (if hasSwapPoints e
                then pushTimer c4
                       \<lparr>delay = clip_ms (latencyMs e),
                        observe = Some (''clip'', clip_ms (latencyMs e)),
                        payload = StageHintsData (swap_points (timeline e))\<rparr>
                else c4);
          idle = idleAfterMs e;
          c6 = pushTimer c5
                 \<lparr>delay = audio (latencyMs e) + idle,
                  observe = None,
                  payload = StageData ''stage.play_idle''
                              (PlayIdlePayload idle (''figures/'' @ personaId e @ ''/stage.mp4''))\<rparr>
      in (mc2, c6))"

definition dispatchAll ::
  "(string \<Rightarrow> nat) \<times> ManagedClient list \<Rightarrow> TurnCacheEntry
     \<Rightarrow> (string \<Rightarrow> nat) \<times> ManagedClient list" where
  "dispatchAll mc_targets e =
     foldl (\<lambda>(mc, done) client.
              let (mc', c') = dispatchTurn (mc, client) e in (mc', done @ [c']))
       (fst mc_targets, []) (snd mc_targets)"

definition broadcastTurns ::
  "(string \<Rightarrow> nat) \<times> SseHub \<Rightarrow> string \<Rightarrow> TurnCacheEntry list \<Rightarrow> (string \<Rightarrow> nat) \<times> SseHub" where
  "broadcastTurns mc_hub sessionId turns =
     (let (mc, h) = mc_hub
      in if length turns = 0 then (mc, h)
         else case map_of h sessionId of
                None \<Rightarrow> (mc, h)
              | Some targets \<Rightarrow>
                  if length targets = 0 then (mc, h)
                  else let (mc', targets') = foldl dispatchAll (mc, targets) turns
                       in (mc', AList.update sessionId targets' h))"

subsection \<open>The timers of Node\<close>

text \<open>
  \<^verbatim>\<open>setTimeout\<close> replaces a delay that is not between 1 and \<open>2\<^sup>3\<^sup>1 - 1\<close> by 1 and truncates
  it to whole milliseconds. Timers set during one callback start at the same loop time;
  they fire by duration, and those of one duration in the order they were set.
\<close>

definition timeoutMs :: "real \<Rightarrow> int" where
  "timeoutMs d = (if 1 \<le> d \<and> d \<le> 2147483647 then \<lfloor>d\<rfloor> else 1)"

definition fireOrder :: "ScheduledTimer list \<Rightarrow> ScheduledTimer list" where
  "fireOrder ts = sort_key (\<lambda>t. timeoutMs (delay t)) ts"

text \<open>The pending timers of a client fire; each callback writes through \<^verbatim>\<open>writeMessage\<close>.\<close>

definition runTimers :: "ManagedClient \<Rightarrow> ManagedClient" where
  "runTimers client =
     foldl (\<lambda>c t. writeMessage c (payload t)) (client\<lparr>timers := []\<rparr>)
       (fireOrder (timers client))"

section \<open>app.ts: the session and turn handlers\<close>

text \<open>
  The state of the process: the session store, the hub, the counters of \<^verbatim>\<open>metrics.ts\<close>
  by label, and the delays of the pending share-expiry timers.
\<close>

record Emulator =
  store :: SessionStore
  hub :: SseHub
  turnCounter :: "string \<Rightarrow> nat"
  missCounter :: "string \<Rightarrow> nat"
  shareCounter :: "string \<Rightarrow> nat"
  shareTimers :: "real list"

record SessionStartRequest =
  ssr_mode :: string
  ssr_personas :: "PersonaRef list"

record SessionStartResponse =
  ss_session_id :: string
  ss_token :: string
  ss_ttl_s :: int
  ss_mode :: string
  ss_personas :: "PersonaRef list"

datatype http_response =
    ErrorResponse nat string "string option"
  | SessionStarted SessionStartResponse
  | TurnAccepted TurnResponseBody
  | Unhandled string

record TurnHttpRequest =
  header_idempotency_key :: "string option"
  query_session_id :: "string option"
  header_x_session_id :: "string option"
  header_authorization :: "string option"
  body :: TurnRequestBody

text \<open>
  What one request draws from the platform: the two \<^verbatim>\<open>randomUUID()\<close> values of the turn
  handler and the \<^verbatim>\<open>Math.random()\<close> values of the two miss tests and the two jitters.
\<close>

record Randomness =
  uuid_session :: string
  uuid_request :: string
  rnd_miss_tts :: real
  rnd_miss_clip :: real
  rnd_audio :: real
  rnd_clip :: real

fun splitOn :: "char \<Rightarrow> string \<Rightarrow> string list" where
  "splitOn c [] = [[]]"
| "splitOn c (x # xs) =
     (if x = c then [] # splitOn c xs
      else case splitOn c xs of w # ws \<Rightarrow> (x # w) # ws | [] \<Rightarrow> [[x]])"

definition extractSessionId :: "TurnHttpRequest \<Rightarrow> TurnRequestBody \<Rightarrow> string option" where
  "extractSessionId req b =
     (case query_session_id req of
        Some q \<Rightarrow> Some q
      | None \<Rightarrow>
          if truthyStr (session_id b) then session_id b
          else if truthyStr (header_x_session_id req) then header_x_session_id req
          else if truthyStr (header_authorization req)
          then (case header_authorization req of
                  None \<Rightarrow> None
                | Some auth \<Rightarrow>
                    let parts = splitOn (CHR '' '') auth
                    in if length parts = 2 then Some (parts ! 1) else Some auth)
          else None)"

text \<open>\<^verbatim>\<open>sessionStartSchema\<close> on a typed body: at least one persona.\<close>

definition sessionStartSchema :: "SessionStartRequest \<Rightarrow> bool" where
  "sessionStartSchema b = (length (ssr_personas b) \<ge> 1)"

text \<open>
  \<^verbatim>\<open>turnSchema\<close> on a typed body; \<open>isUrl\<close> is the URL test of the schema library.
\<close>

definition turnSchema :: "(string \<Rightarrow> bool) \<Rightarrow> TurnRequestBody \<Rightarrow> bool" where
  "turnSchema isUrl b =
     ((case audio_url b of None \<Rightarrow> True | Some u \<Rightarrow> isUrl u)
      \<and> (case transcript b of None \<Rightarrow> True | Some (text, lang) \<Rightarrow> length text \<ge> 1)
      \<and> (truthyStr (audio_url b) \<or> transcript b \<noteq> None))"

definition postSessionStart ::
  "EmulatorConfig \<Rightarrow> int \<Rightarrow> string \<Rightarrow> SessionStartRequest \<Rightarrow> Emulator
     \<Rightarrow> http_response \<times> Emulator" where
  "postSessionStart cfg now uuid req app =
     (if \<not> sessionStartSchema req then (ErrorResponse 400 ''EMU_BAD_REQUEST'' None, app)
      else
        let sessionId = ''sess_'' @ uuid;
            session = \<lparr>ss_session_id = sessionId, ss_token = sessionId,
                       ss_ttl_s = sessionTtlSeconds cfg, ss_mode = ssr_mode req,
                       ss_personas = ssr_personas req\<rparr>;
            (r, st') = createSession cfg now (ss_session_id session) (ss_token session)
                         (ss_mode session) (ss_personas session) (store app)
        in (SessionStarted session, app\<lparr>store := st'\<rparr>))"

text \<open>Lines 276 to 290 of the turn handler: what an accepted turn sets off.\<close>

definition acceptTurn :: "string \<Rightarrow> IdempotencyResult \<Rightarrow> Emulator \<Rightarrow> Emulator" where
  "acceptTurn sessionId r app =
     (let e = entry r
      in if \<not> reused r
         then
           let app1 = app\<lparr>turnCounter := inc (turnCounter app) (fixtureId e)\<rparr>;
               app2 = app1\<lparr>store := enqueueTurn (store app1) sessionId e\<rparr>;
               app3 = (case share_ref (timeline e) of
                         Some sr \<Rightarrow>
                           app2\<lparr>shareCounter := inc (shareCounter app2) ''issued'',
                                shareTimers := shareTimers app2 @ [ttl_s sr * 1000]\<rparr>
                       | None \<Rightarrow> app2)
           in if hasClients (hub app3) sessionId
              then
                let (pending, st') = takePendingTurns (store app3) sessionId;
                    (mc', h') = broadcastTurns (missCounter app3, hub app3) sessionId pending
                in app3\<lparr>store := st', missCounter := mc', hub := h'\<rparr>
              else app3
         else app)"

text \<open>Lines 264 to 299: the turn is stored, accepted and answered.\<close>

definition storeTurn ::
  "(string \<Rightarrow> string) \<Rightarrow> (TurnRequestBody \<Rightarrow> string) \<Rightarrow> EmulatorConfig \<Rightarrow> int \<Rightarrow> string
     \<Rightarrow> string \<Rightarrow> TurnRequestBody \<Rightarrow> TurnEntryData \<Rightarrow> Emulator \<Rightarrow> http_response \<times> Emulator" where
  "storeTurn sha stringify cfg now sessionId key p entryData app =
     (case putTurn sha stringify cfg now (store app) sessionId key p entryData of
        (Inl err, st') \<Rightarrow>
          (if code err = Some ''IDEMPOTENCY_BODY_MISMATCH''
           then ErrorResponse 409 ''EMU_IDEMPOTENCY_REPLAY''
                  (Some ''Payload does not match cached turn for this key'')
           else ErrorResponse 500 ''EMU_INTERNAL_ERROR'' (Some (message err)),
           app\<lparr>store := st'\<rparr>)
      | (Inr r, st') \<Rightarrow>
          (TurnAccepted \<lparr>request_id = requestId (entry r),
                         policy_pair_audio_only = pairAudioOnly cfg,
                         fixture_id = fixtureId (entry r)\<rparr>,
           acceptTurn sessionId r (app\<lparr>store := st'\<rparr>)))"

text \<open>
  The handler of \<^verbatim>\<open>POST /v1/session/turn\<close>. A selection that is \<^verbatim>\<open>undefined\<close> makes
  \<^verbatim>\<open>applyFixtureToggles\<close> throw a \<^verbatim>\<open>TypeError\<close> that nothing catches.
\<close>

definition postSessionTurn ::
  "(string \<Rightarrow> string) \<Rightarrow> StringOps \<Rightarrow> (TurnRequestBody \<Rightarrow> string) \<Rightarrow> (string \<Rightarrow> bool)
     \<Rightarrow> (real \<Rightarrow> string) \<Rightarrow> EmulatorConfig \<Rightarrow> FixtureRegistry \<Rightarrow> int \<Rightarrow> Randomness \<Rightarrow> TurnHttpRequest \<Rightarrow> Emulator
     \<Rightarrow> http_response \<times> Emulator" where
  "postSessionTurn sha ops stringify isUrl toISO cfg reg now rs req app =
     (if \<not> truthyStr (header_idempotency_key req)
      then (ErrorResponse 400 ''EMU_BAD_REQUEST''
              (Some ''Idempotency-Key header is required''), app)
      else if \<not> turnSchema isUrl (body req)
      then (ErrorResponse 400 ''EMU_BAD_REQUEST'' None, app)
      else
        let key = (case header_idempotency_key req of Some k \<Rightarrow> k | None \<Rightarrow> []);
            p = body req;
            sessionId = ''sess_'' @ uuid_session rs
        in if sessionId = []
           then (ErrorResponse 400 ''EMU_BAD_REQUEST'' (Some ''session_id is required''), app)
           else
             let (session, st1) = getSession now (store app) sessionId;
                 app1 = app\<lparr>store := st1\<rparr>
             in case session of
                  None \<Rightarrow>
                    (ErrorResponse 404 ''EMU_SESSION_UNKNOWN''
                       (Some ''Session not found or expired''), app1)
                | Some _ \<Rightarrow>
                    let discriminator =
                          (case transcript p of
                             Some (text, lang) \<Rightarrow> text
                           | None \<Rightarrow>
                               (case audio_url p of
                                  Some u \<Rightarrow> u
                                | None \<Rightarrow>
                                    (case transcript_hint p of
                                       Some h \<Rightarrow> h
                                     | None \<Rightarrow> persona_id p)))
                    in case selectFixture sha ops reg (persona_id p) discriminator of
                         Inl err \<Rightarrow>
                           (ErrorResponse 503 ''EMU_FIXTURE_MISSING'' (Some (message err)), app1)
                       | Inr None \<Rightarrow> (Unhandled ''TypeError'', app1)
                       | Inr (Some fixture) \<Rightarrow>
                           let m = \<lparr>tts = Some (percentToHit (rnd_miss_tts rs) (missPct_tts cfg)),
                                    clip = Some (percentToHit (rnd_miss_clip rs) (missPct_clip cfg))\<rparr>;
                               tline = applyFixtureToggles cfg now toISO fixture m;
                               rid = ''req_'' @ uuid_request rs;
                               entryData =
                                 \<lparr>d_requestId = rid,
                                  d_fixtureId = fx_id fixture,
                                  d_timeline = tline,
                                  d_personaId = persona_id p,
                                  d_miss = Some m,
                                  d_latencyMs =
                                    \<lparr>audio = withJitter (rnd_audio rs) (latency_tts cfg)
                                               (latency_jitter cfg),
                                     clip_ms = withJitter (rnd_clip rs) (latency_clip cfg)
                                                 (latency_jitter cfg)\<rparr>\<rparr>
                           in storeTurn sha stringify cfg now sessionId key p entryData app1)"

section \<open>Notions used in the statements\<close>

subsection \<open>Sessions and the turn cache\<close>

text \<open>Nothing of a session is reachable in the store.\<close>

definition purged :: "SessionStore \<Rightarrow> string \<Rightarrow> bool" where
  "purged st sid =
     (map_of (sessions st) sid = None \<and> map_of (idempotency st) sid = None
      \<and> map_of (pendingTurns st) sid = None)"

text \<open>No entry of a cache partition has expired.\<close>

definition liveCache :: "int \<Rightarrow> TurnCache \<Rightarrow> bool" where
  "liveCache nowTs c = list_all (\<lambda>(key, e). nowTs < expiresAt e) c"

text \<open>One step of the first loop of \<^verbatim>\<open>cleanupExpired\<close>.\<close>

definition sweepStep :: "int \<Rightarrow> string \<Rightarrow> SessionStore \<Rightarrow> SessionStore" where
  "sweepStep nowTs sessionId st =
     (case map_of (sessions st) sessionId of
        Some session \<Rightarrow>
          if s_expiresAt session \<le> nowTs
          then st\<lparr>sessions := AList.delete sessionId (sessions st),
                  idempotency := AList.delete sessionId (idempotency st),
                  pendingTurns := AList.delete sessionId (pendingTurns st)\<rparr>
          else st
      | None \<Rightarrow> st)"

text \<open>The entry of a session and a key, if the cache has one.\<close>

definition cachedTurn :: "SessionStore \<Rightarrow> string \<Rightarrow> string \<Rightarrow> TurnCacheEntry option" where
  "cachedTurn st sid key =
     (case map_of (idempotency st) sid of None \<Rightarrow> None | Some c \<Rightarrow> map_of c key)"

text \<open>The session is in the store and has not expired.\<close>

definition validSession :: "int \<Rightarrow> SessionStore \<Rightarrow> string \<Rightarrow> bool" where
  "validSession now st sid =
     (case map_of (sessions st) sid of None \<Rightarrow> False | Some s \<Rightarrow> now < s_expiresAt s)"

text \<open>The entry \<^verbatim>\<open>putTurn\<close> builds on a first submission.\<close>

definition newEntry ::
  "(string \<Rightarrow> string) \<Rightarrow> ('b \<Rightarrow> string) \<Rightarrow> EmulatorConfig \<Rightarrow> int \<Rightarrow> string \<Rightarrow> 'b \<Rightarrow> TurnEntryData
     \<Rightarrow> TurnCacheEntry" where
  "newEntry sha stringify cfg now key b d =
     \<lparr>requestId = d_requestId d, fixtureId = d_fixtureId d, createdAt = now,
      expiresAt = now + idempotencyTtlSeconds cfg * 1000,
      bodyHash = hashString sha (stringify b), timeline = d_timeline d,
      personaId = d_personaId d, idempotencyKey = key, miss = d_miss d,
      latencyMs = d_latencyMs d\<rparr>"

subsection \<open>Values for the examples\<close>

text \<open>
  The configuration is the default one of \<^verbatim>\<open>config.ts\<close>; the turn is the one of
  \<^verbatim>\<open>tests/sessionStore.test.ts\<close>. \<open>demo_sha\<close> stands for a digest in the examples only:
  it has the shape of one and tells strings of even and odd length apart.
\<close>

definition ex_config :: EmulatorConfig where
  "ex_config =
     \<lparr>pairAudioOnly = True, latency_tts = 600, latency_clip = 1200, latency_jitter = 300,
      missPct_tts = 0, missPct_clip = 0, swapEnabled = True, shareEnabled = True,
      shareTtlMinutes = 10, sessionTtlSeconds = 1800, idempotencyTtlSeconds = 86400,
      sseBackoffSequenceMs = [1000, 3000, 5000, 10000]\<rparr>"

definition demo_sha :: "string \<Rightarrow> string" where
  "demo_sha x = (if even (length x) then ''0000001a'' else ''000000ff'') @ replicate 56 (CHR ''0'')"

definition demo_stringify :: "TurnRequestBody \<Rightarrow> string" where
  "demo_stringify b =
     persona_id b @ '':'' @ (case transcript b of Some (text, lang) \<Rightarrow> text | None \<Rightarrow> [])"

definition ex_timeline :: TimelineV1 where
  "ex_timeline =
     \<lparr>version = ''1'', clock = ''audio'', start_at = ''now'', sources_badge = None,
      tracks = [], swap_points = None, sidecar = None, share_ref = None, meta = None\<rparr>"

definition ex_data :: TurnEntryData where
  "ex_data =
     \<lparr>d_requestId = ''req_test'', d_fixtureId = ''fx_test'', d_timeline = ex_timeline,
      d_personaId = ''socrates'', d_miss = Some \<lparr>tts = None, clip = None\<rparr>,
      d_latencyMs = \<lparr>audio = 100, clip_ms = 200\<rparr>\<rparr>"

definition ex_entry :: "string \<Rightarrow> string \<Rightarrow> int \<Rightarrow> TurnCacheEntry" where
  "ex_entry key hash expires =
     \<lparr>requestId = ''req_test'', fixtureId = ''fx_test'', createdAt = 0, expiresAt = expires,
      bodyHash = hash, timeline = ex_timeline, personaId = ''socrates'',
      idempotencyKey = key, miss = Some \<lparr>tts = None, clip = None\<rparr>,
      latencyMs = \<lparr>audio = 100, clip_ms = 200\<rparr>\<rparr>"

definition ex_session :: "string \<Rightarrow> int \<Rightarrow> SessionRecord" where
  "ex_session sid expires =
     \<lparr>s_id = sid, s_token = sid, s_mode = ''portrait_chat'',
      s_personas = [(''socrates'', None)], s_createdAt = 0, s_expiresAt = expires\<rparr>"

definition ex_body :: "string \<Rightarrow> TurnRequestBody" where
  "ex_body p =
     \<lparr>audio_url = None, transcript = Some (''hello'', None), transcript_hint = None,
      persona_id = p, session_id = None\<rparr>"

text \<open>
  A store at time 100: \<open>sess_old\<close> expired at 50 and still has a cached turn and a queued
  one; \<open>sess_test\<close> lives until 5000 and has one expired and one live cached turn.
\<close>

definition ex_store :: SessionStore where
  "ex_store =
     \<lparr>sessions = [(''sess_old'', ex_session ''sess_old'' 50),
                  (''sess_test'', ex_session ''sess_test'' 5000)],
      idempotency =
        [(''sess_old'', [(''key'', ex_entry ''key'' (demo_sha ''socrates:hello'') 9000)]),
         (''sess_test'', [(''stale'', ex_entry ''stale'' (demo_sha ''socrates:hello'') 60),
                        (''key'', ex_entry ''key'' (demo_sha ''socrates:hello'') 9000)])],
      pendingTurns =
        [(''sess_old'', [ex_entry ''key'' (demo_sha ''socrates:hello'') 9000])]\<rparr>"


subsection \<open>Rendering and the handlers\<close>

text \<open>What the specification asks of a timeline rendered with a clip miss.\<close>

definition clipMissRendered :: "TimelineV1 \<Rightarrow> bool" where
  "clipMissRendered t =
     (filter (\<lambda>track. track_type track = ''video'') (tracks t) = []
      \<and> swap_points t = Some []
      \<and> (case meta t of Some m \<Rightarrow> map_of m ''miss_clip'' = Some (JBool True) | None \<Rightarrow> False))"

text \<open>The answer to an accepted turn.\<close>

definition accepted :: "EmulatorConfig \<Rightarrow> string \<Rightarrow> string \<Rightarrow> http_response" where
  "accepted cfg rid fid =
     TurnAccepted \<lparr>request_id = rid, policy_pair_audio_only = pairAudioOnly cfg,
                   fixture_id = fid\<rparr>"

text \<open>
  The pending queue and the subscribers of a session (none when the map has no entry),
  and what one dispatch does to a subscriber.
\<close>

definition pendingOf :: "SessionStore \<Rightarrow> string \<Rightarrow> TurnCacheEntry list" where
  "pendingOf st sid = (case map_of (pendingTurns st) sid of Some q \<Rightarrow> q | None \<Rightarrow> [])"

definition clientsOf :: "SseHub \<Rightarrow> string \<Rightarrow> ManagedClient list" where
  "clientsOf h sid = (case map_of h sid of Some targets \<Rightarrow> targets | None \<Rightarrow> [])"

definition dispatchClient :: "ManagedClient \<Rightarrow> TurnCacheEntry \<Rightarrow> ManagedClient" where
  "dispatchClient client e = snd (dispatchTurn (\<lambda>l. 0, client) e)"

definition ex_emulator :: Emulator where
  "ex_emulator =
     \<lparr>store = ex_store, hub = [], turnCounter = (\<lambda>l. 0), missCounter = (\<lambda>l. 0),
      shareCounter = (\<lambda>l. 0), shareTimers = []\<rparr>"

definition ex_empty :: Emulator where
  "ex_empty =
     \<lparr>store = \<lparr>sessions = [], idempotency = [], pendingTurns = []\<rparr>, hub = [],
      turnCounter = (\<lambda>l. 0), missCounter = (\<lambda>l. 0), shareCounter = (\<lambda>l. 0),
      shareTimers = []\<rparr>"

text \<open>
  A fixture with an audio and a video track of three seconds and one swap point after
  two seconds.
\<close>

definition ex_fixture :: LoadedFixture where
  "ex_fixture =
     \<lparr>fx_id = ''fx_socrates_opening_01'', fx_persona_id = ''socrates'',
      swap_enabled = None, share_enabled = None, idle_after_ms = None,
      fx_timeline =
        ex_timeline
          \<lparr>tracks :=
             [\<lparr>track_type = ''audio'', track_id = ''a1'', source_url = Some ''/media/a1.wav'',
               offset = Some 0, duration = Some 3\<rparr>,
              \<lparr>track_type = ''video'', track_id = ''v1'', source_url = Some ''/media/v1.mp4'',
               offset = Some 0, duration = Some 3\<rparr>],
           swap_points := Some [\<lparr>sp_at = 2, replace = ''v1'', with_source = ''v2''\<rparr>]\<rparr>\<rparr>"

text \<open>
  A session started with the identifier \<open>sess_a\<close>, and a turn request that names that
  session in its query, its body and both headers.
\<close>

definition ex_started :: Emulator where
  "ex_started =
     snd (postSessionStart ex_config 0 ''a''
            \<lparr>ssr_mode = ''portrait_chat'', ssr_personas = [(''socrates'', None)]\<rparr> ex_empty)"

definition ex_turn_request :: TurnHttpRequest where
  "ex_turn_request =
     \<lparr>header_idempotency_key = Some ''key'',
      query_session_id = Some ''sess_a'',
      header_x_session_id = Some ''sess_a'',
      header_authorization = Some ''Bearer sess_a'',
      body = (ex_body ''socrates'')\<lparr>session_id := Some ''sess_a''\<rparr>\<rparr>"

definition ex_randomness :: Randomness where
  "ex_randomness =
     \<lparr>uuid_session = ''b'', uuid_request = ''c'', rnd_miss_tts = 1 / 2, rnd_miss_clip = 1 / 2,
      rnd_audio = 1 / 2, rnd_clip = 1 / 2\<rparr>"


subsection \<open>Fixture selection in the specification's words\<close>














subsection \<open>Delivery of a turn in the specification's words\<close>

text \<open>
  The signals the specification names, and the signal a frame stands for. A
  \<^verbatim>\<open>turn_started\<close> signal is an event with that name.
\<close>

datatype signal =
    SigMiss string | SigTurnStarted | SigStopIdle | SigTimeline | SigSwap | SigPlayIdle
  | SigOther

fun spec_signal :: "sse_frame \<Rightarrow> signal" where
  "spec_signal (Event name (MissData k rid)) =
     (if name = ''miss'' then SigMiss k
      else if name = ''turn_started'' then SigTurnStarted else SigOther)"
| "spec_signal (Event name d) = (if name = ''turn_started'' then SigTurnStarted else SigOther)"
| "spec_signal (Message (StageData ty p)) =
     (if ty = ''stage.stop_idle'' then SigStopIdle
      else if ty = ''stage.play_idle'' then SigPlayIdle else SigOther)"
| "spec_signal (Message (TimelineData env)) = SigTimeline"
| "spec_signal (Message (StageHintsData sps)) = SigSwap"
| "spec_signal f = SigOther"

text \<open>The sequence of the specification: each signal with the delay it is sent after.\<close>

definition spec_delivery :: "TurnCacheEntry \<Rightarrow> (real \<times> signal) list" where
  "spec_delivery e =
     (if missTts e then [(0, SigMiss ''tts'')] else [])
     @ (if missClip e then [(0, SigMiss ''clip'')] else [])
     @ [(0, SigTurnStarted), (0, SigStopIdle), (audio (latencyMs e), SigTimeline)]
     @ (if hasSwapPoints e then [(clip_ms (latencyMs e), SigSwap)] else [])
     @ [(audio (latencyMs e) + idleAfterMs e, SigPlayIdle)]"

text \<open>
  What a subscriber receives for one turn: the frames \<^verbatim>\<open>dispatchTurn\<close> writes at once,
  with delay 0, then the frames its timers write, each with the delay of its timer, in
  the order the timers fire. A closed subscriber has no timers left to fire.
\<close>

definition turnTrace :: "ManagedClient \<Rightarrow> TurnCacheEntry \<Rightarrow> (real \<times> sse_frame) list" where
  "turnTrace client e =
     (let c1 = snd (dispatchTurn (\<lambda>l. 0, client\<lparr>res := [], timers := []\<rparr>) e)
      in map (\<lambda>f. (0, f)) (res c1)
         @ (if closed c1 then []
            else map (\<lambda>t. (delay t, Message (payload t))) (fireOrder (timers c1))))"

definition turnSignals :: "ManagedClient \<Rightarrow> TurnCacheEntry \<Rightarrow> (real \<times> signal) list" where
  "turnSignals client e = map (\<lambda>(d, f). (d, spec_signal f)) (turnTrace client e)"

text \<open>A sequence of signals with the \<^verbatim>\<open>turn_started\<close> signals left out.\<close>

definition withoutTurnStarted :: "(real \<times> signal) list \<Rightarrow> (real \<times> signal) list" where
  "withoutTurnStarted xs = filter (\<lambda>(d, s). s \<noteq> SigTurnStarted) xs"

text \<open>
  The three timers of a turn fire in the order they are set: the delay of the timeline
  is not above that of the idle signal and, when there is a swap, the delay of the swap
  lies between the two (delays as \<^verbatim>\<open>setTimeout\<close> takes them).
\<close>

definition delaysInOrder :: "TurnCacheEntry \<Rightarrow> bool" where
  "delaysInOrder e =
     (let a = timeoutMs (audio (latencyMs e));
          c = timeoutMs (clip_ms (latencyMs e));
          i = timeoutMs (audio (latencyMs e) + idleAfterMs e)
      in if hasSwapPoints e then a \<le> c \<and> c \<le> i else a \<le> i)"

text \<open>
  A subscriber of \<open>sess_test\<close>. A turn as the handler builds it under the default
  configuration, from a fixture that asks for the idle signal 100 ms after the audio:
  draws of one half give the latencies 600 and 1200.
\<close>

definition ex_client :: ManagedClient where
  "ex_client = \<lparr>c_sessionId = ''sess_test'', res = [], timers = [], closed = False\<rparr>"

definition ex_turn :: "real option \<Rightarrow> TurnCacheEntry" where
  "ex_turn idle =
     newEntry demo_sha demo_stringify ex_config 0 ''key'' (ex_body ''socrates'')
       \<lparr>d_requestId = ''req_c'', d_fixtureId = fx_id ex_fixture,
        d_timeline = applyFixtureToggles ex_config 0 (\<lambda>t. ''later'')
                       (ex_fixture\<lparr>idle_after_ms := idle\<rparr>)
                       \<lparr>tts = Some False, clip = Some False\<rparr>,
        d_personaId = ''socrates'', d_miss = Some \<lparr>tts = Some False, clip = Some False\<rparr>,
        d_latencyMs = \<lparr>audio = withJitter (1 / 2) (latency_tts ex_config) (latency_jitter ex_config),
                       clip_ms = withJitter (1 / 2) (latency_clip ex_config)
                                   (latency_jitter ex_config)\<rparr>\<rparr>"


section \<open>Properties of utils.ts\<close>

subsection \<open>sanitizeMediaPath\<close>

lemma take1_replaceDotRuns: "take 1 (replaceDotRuns s) = take 1 s"
proof (cases s)
  case Nil
  then show ?thesis by simp
next
  case (Cons c cs)
  then show ?thesis by simp
qed

lemma take1_dropWhile_dot: "take 1 (dropWhile (\<lambda>x. x = CHR ''.'') cs) \<noteq> ''.''"
proof (cases "dropWhile (\<lambda>x. x = CHR ''.'') cs")
  case Nil
  show ?thesis unfolding Nil by simp
next
  case (Cons d ds)
  then have "d \<noteq> CHR ''.''"
    using hd_dropWhile[of "\<lambda>x. x = CHR ''.''" cs] by auto
  with Cons show ?thesis by simp
qed

lemma includes_dotdot_Cons:
  "str_includes (c # r) ''..'' = ((c = CHR ''.'' \<and> take 1 r = ''.'') \<or> str_includes r ''..'')"
  by (cases r) auto

lemma replaceDotRuns_no_dotdot: "\<not> str_includes (replaceDotRuns s) ''..''"
proof (induction s rule: replaceDotRuns.induct)
  case 1
  then show ?case by simp
next
  case (2 c cs)
  show ?case
  proof (cases "c = CHR ''.'' \<and> take 1 cs = ''.''")
    case True
    let ?r = "dropWhile (\<lambda>x. x = CHR ''.'') cs"
    have "take 1 (replaceDotRuns ?r) \<noteq> ''.''"
      using take1_replaceDotRuns[of ?r] take1_dropWhile_dot[of cs] by simp
    moreover have "\<not> str_includes (replaceDotRuns ?r) ''..''"
      using 2(1) True by simp
    moreover have "replaceDotRuns (c # cs) = CHR ''.'' # replaceDotRuns ?r"
      by (subst replaceDotRuns.simps) (rule if_P[OF True])
    ultimately show ?thesis
      by (simp only: includes_dotdot_Cons) simp
  next
    case False
    have "\<not> str_includes (replaceDotRuns cs) ''..''"
      using 2(2) False by simp
    moreover have "replaceDotRuns (c # cs) = c # replaceDotRuns cs"
      by (subst replaceDotRuns.simps) (rule if_not_P[OF False])
    moreover have "take 1 (replaceDotRuns cs) = take 1 cs"
      by (rule take1_replaceDotRuns)
    ultimately show ?thesis
      using False by (simp only: includes_dotdot_Cons) simp
  qed
qed

text \<open>
  C10. \<^verbatim>\<open>sanitizeMediaPath\<close> returns for every input and never throws
  \<^verbatim>\<open>INVALID_MEDIA_PATH\<close>: once every run of two or more dots is one dot, the normalized
  path holds no \<^verbatim>\<open>..\<close>, so the test before the throw is false. A path that climbs out
  with \<^verbatim>\<open>..\<close> is not refused: its dots are collapsed and it is returned.
\<close>

theorem sanitizeMediaPath_never_rejects:
  "sanitizeMediaPath input = Inr (normalizedPath input)
   \<and> \<not> str_includes (normalizedPath input) ''..''
   \<and> sanitizeMediaPath input \<noteq> Inl (Error ''INVALID_MEDIA_PATH'' None)
   \<and> sanitizeMediaPath ''../../etc/passwd'' = Inr ''././etc/passwd''"
proof -
  have no: "\<not> str_includes (normalizedPath input) ''..''"
    by (simp add: normalizedPath_def Let_def replaceDotRuns_no_dotdot)
  then have ok: "sanitizeMediaPath input = Inr (normalizedPath input)"
    by (simp add: sanitizeMediaPath_def Let_def)
  have ex: "sanitizeMediaPath ''../../etc/passwd'' = Inr ''././etc/passwd''"
    by (simp add: sanitizeMediaPath_def normalizedPath_def Let_def)
  from no ok ex show ?thesis by simp
qed

subsection \<open>withJitter\<close>

text \<open>
  C9, as the specification states it, fails: the result is floored at zero, so a base
  below \<open>- jitter\<close> gives 0, above \<open>base + jitter\<close>; a negative jitter is ignored; and a
  jitter whose double is not whole lets the floor of the draw exceed \<open>2 * jitter\<close>.
\<close>

theorem withJitter_bound_counterexample:
  "\<not> (max 0 (- 10 - 5) \<le> withJitter 0 (- 10) 5 \<and> withJitter 0 (- 10) 5 \<le> - 10 + 5)
   \<and> \<not> (max 0 (1000 - 3 / 10) \<le> withJitter (9 / 10) 1000 (3 / 10)
         \<and> withJitter (9 / 10) 1000 (3 / 10) \<le> 1000 + 3 / 10)
   \<and> \<not> (max 0 (10 - (- 5)) \<le> withJitter 0 10 (- 5) \<and> withJitter 0 10 (- 5) \<le> 10 + (- 5))"
  by (simp add: withJitter_def)

text \<open>
  C9, amended. For a draw in \<open>[0, 1)\<close>, a jitter that is not negative and whose double is a
  whole number, and a base with \<open>base + jitter\<close> not negative, the result of
  \<^verbatim>\<open>withJitter\<close> is in \<open>[max(0, base - jitter), base + jitter]\<close>.
\<close>

theorem withJitter_bounds:
  assumes "0 \<le> rnd" and "rnd < 1" and "0 \<le> jitter" and "2 * jitter \<in> \<int>"
    and "0 \<le> base + jitter"
  shows "max 0 (base - jitter) \<le> withJitter rnd base jitter
         \<and> withJitter rnd base jitter \<le> base + jitter"
proof (cases "jitter \<le> 0")
  case True
  with assms have "jitter = 0" by simp
  with assms show ?thesis by (simp add: withJitter_def)
next
  case False
  then have jpos: "0 < jitter" by simp
  define k where "k = \<lfloor>rnd * (jitter * 2 + 1)\<rfloor>"
  obtain m :: int where m: "2 * jitter = of_int m"
    using assms(4) by (auto elim: Ints_cases)
  have "0 \<le> rnd * (jitter * 2 + 1)" using assms jpos by simp
  then have k0: "0 \<le> k" by (simp add: k_def)
  have "rnd * (jitter * 2 + 1) < jitter * 2 + 1"
    using assms(2) jpos by simp
  also have "jitter * 2 + 1 = of_int (m + 1)" using m by simp
  finally have "rnd * (jitter * 2 + 1) < of_int (m + 1)" .
  then have "k < m + 1" unfolding k_def by (simp only: floor_less_iff)
  then have "of_int k \<le> (of_int m :: real)" by simp
  then have k2: "of_int k \<le> 2 * jitter" using m by simp
  have w: "withJitter rnd base jitter = max 0 (base + (of_int k - jitter))"
    using False by (simp add: withJitter_def k_def)
  have k0': "(0::real) \<le> of_int k" using k0 by simp
  show ?thesis unfolding w using k0' k2 assms(5) by auto
qed

theorem withJitter_bounds_witness:
  "(0::real) \<le> 1 / 2 \<and> (1 / 2 :: real) < 1 \<and> (0::real) \<le> 100 \<and> 2 * (100::real) \<in> \<int>
   \<and> (0::real) \<le> 1000 + 100
   \<and> max 0 (1000 - 100) \<le> withJitter (1 / 2) 1000 100
   \<and> withJitter (1 / 2) 1000 100 \<le> 1000 + 100"
  using withJitter_bounds[of "1 / 2" 100 1000] by simp

subsection \<open>selectDeterministic\<close>

lemma hexDigitValue_lower:
  "isLowerHexChar c \<Longrightarrow>
     hexDigitValue c \<noteq> None \<and> \<not> isSpaceChar c \<and> c \<noteq> CHR ''-'' \<and> c \<noteq> CHR ''+''
     \<and> c \<noteq> CHR ''x'' \<and> c \<noteq> CHR ''X''"
  by (auto simp: isLowerHexChar_def hexDigitValue_def isSpaceChar_def upt_rec)

lemma hexPrefix_all: "list_all isLowerHexChar s \<Longrightarrow> hexPrefix s = map hexVal s"
proof (induction s)
  case Nil
  then show ?case by simp
next
  case (Cons c s)
  then have "hexDigitValue c \<noteq> None" using hexDigitValue_lower[of c] by simp
  with Cons show ?case by (auto simp: hexVal_def)
qed

lemma parseInt16_digest_prefix:
  assumes "isHexDigest h"
  shows "parseInt16 (take 8 h) = Some (int (fromDigits16 (map hexVal (take 8 h))))"
proof -
  let ?seg = "take 8 h"
  have all: "list_all isLowerHexChar ?seg"
    using assms by (auto simp: isHexDigest_def list_all_iff dest: in_set_takeD)
  have len: "length ?seg = 8" using assms by (simp add: isHexDigest_def)
  then obtain c1 c2 r where seg: "?seg = c1 # c2 # r"
    by (cases ?seg; cases "tl ?seg") auto
  have c1: "isLowerHexChar c1" and c2: "isLowerHexChar c2"
    using all unfolding seg by simp_all
  note p1 = hexDigitValue_lower[OF c1] and p2 = hexDigitValue_lower[OF c2]
  have hp: "hexPrefix ?seg = map hexVal ?seg" by (rule hexPrefix_all[OF all])
  have "parseInt16 ?seg = Some (int (fromDigits16 (hexPrefix ?seg)))"
    unfolding parseInt16_def seg using p1 p2 by (auto simp: Let_def)
  then show ?thesis by (simp only: hp)
qed

lemma selectDeterministic_digest:
  assumes "items \<noteq> []" and "isHexDigest (sha key)"
  shows "selectDeterministic sha items key
           = Inr (Some (items ! spec_select_index sha (length items) key))"
    and "spec_select_index sha (length items) key < length items"
proof -
  let ?v = "fromDigits16 (map hexVal (take 8 (sha key)))"
  have n: "0 < length items" using assms(1) by simp
  show lt: "spec_select_index sha (length items) key < length items"
    unfolding spec_select_index_def using n by simp
  have "selectDeterministic sha items key
          = Inr (jsIndex items (Some (jsRem (int ?v) (int (length items)))))"
    using n by (simp add: selectDeterministic_def hashString_def
        parseInt16_digest_prefix[OF assms(2)] Let_def)
  also have "jsRem (int ?v) (int (length items))
               = int (spec_select_index sha (length items) key)"
    by (simp add: jsRem_def spec_select_index_def zmod_int)
  also have "jsIndex items (Some (int (spec_select_index sha (length items) key)))
               = Some (items ! spec_select_index sha (length items) key)"
    using lt by (simp add: jsIndex_def)
  finally show "selectDeterministic sha items key
                  = Inr (Some (items ! spec_select_index sha (length items) key))" .
qed

text \<open>
  C6. For a candidate list that is not empty and a key whose digest is a SHA-256 hex
  digest, \<^verbatim>\<open>selectDeterministic\<close> returns the candidate at the index the specification
  describes: the first 8 hex characters of the digest as an unsigned number, modulo the
  length of the list. The result is a function of the list and the key alone and is an
  element of the list. On the empty list the call fails with the error
  \<^verbatim>\<open>Cannot select from empty list\<close> (the specification's InvalidArgument).
\<close>

theorem selectDeterministic_spec:
  "selectDeterministic sha ([] :: 'a list) key
     = Inl (Error ''Cannot select from empty list'' None)
   \<and> ((items :: 'a list) \<noteq> [] \<and> isHexDigest (sha key) \<longrightarrow>
        selectDeterministic sha items key
          = Inr (Some (items ! spec_select_index sha (length items) key))
        \<and> spec_select_index sha (length items) key < length items
        \<and> items ! spec_select_index sha (length items) key \<in> set items)"
proof -
  have "selectDeterministic sha ([] :: 'a list) key
          = Inl (Error ''Cannot select from empty list'' None)"
    by (simp add: selectDeterministic_def)
  moreover have "selectDeterministic sha items key
          = Inr (Some (items ! spec_select_index sha (length items) key))
        \<and> spec_select_index sha (length items) key < length items
        \<and> items ! spec_select_index sha (length items) key \<in> set items"
    if "items \<noteq> []" "isHexDigest (sha key)"
    using that selectDeterministic_digest[of items sha key] by simp
  ultimately show ?thesis by blast
qed

lemma demo_sha_digest: "isHexDigest (demo_sha x)"
  by (simp add: isHexDigest_def demo_sha_def isLowerHexChar_def list_all_iff)

theorem selectDeterministic_spec_witness:
  "[''a'', ''b'', ''c''] \<noteq> [] \<and> isHexDigest (demo_sha ''key'')
   \<and> selectDeterministic demo_sha [''a'', ''b'', ''c''] ''key'' = Inr (Some ''a'')
   \<and> selectDeterministic demo_sha ([] :: string list) ''key''
       = Inl (Error ''Cannot select from empty list'' None)"
proof -
  have i: "spec_select_index demo_sha (Suc (Suc (Suc 0))) ''key'' = 0"
    by (simp add: spec_select_index_def demo_sha_def fromDigits16_def hexVal_def
        hexDigitValue_def upt_rec)
  show ?thesis
    using selectDeterministic_spec[of demo_sha "''key''" "[''a'', ''b'', ''c'']"]
    by (simp add: demo_sha_digest i)
qed


section \<open>Properties of sessionStore.ts\<close>

subsection \<open>getSession\<close>

lemma getSession_expired:
  assumes "map_of (sessions st) sid = Some s" and "s_expiresAt s \<le> now"
  shows "fst (getSession now st sid) = None" and "purged (snd (getSession now st sid)) sid"
  using assms by (simp_all add: getSession_def isExpired_def purged_def delete_conv')

lemma getSession_valid:
  assumes "validSession now st sid"
  shows "\<exists>s. getSession now st sid = (Some s, st)"
  using assms by (auto simp: validSession_def getSession_def isExpired_def split: option.splits)

lemma getSession_absent:
  assumes "map_of (sessions st) sid = None"
  shows "getSession now st sid = (None, st)"
  using assms by (simp add: getSession_def)

subsection \<open>cleanupExpired\<close>

lemma sweepSessions_step:
  "sweepSessions nowTs (k # ks) st = sweepSessions nowTs ks (sweepStep nowTs k st)"
  by (simp add: sweepStep_def)

lemma sweepStep_purged: "purged st sid \<Longrightarrow> purged (sweepStep nowTs k st) sid"
  by (auto simp: sweepStep_def purged_def delete_conv' split: option.splits)

lemma sweepStep_other:
  "k \<noteq> sid \<Longrightarrow> map_of (sessions (sweepStep nowTs k st)) sid = map_of (sessions st) sid"
  by (auto simp: sweepStep_def delete_conv' split: option.splits)

lemma sweepStep_self:
  "map_of (sessions st) sid = Some s \<Longrightarrow> s_expiresAt s \<le> nowTs
     \<Longrightarrow> purged (sweepStep nowTs sid st) sid"
  by (auto simp: sweepStep_def purged_def delete_conv')

lemma sweepSessions_purged: "purged st sid \<Longrightarrow> purged (sweepSessions nowTs ks st) sid"
proof (induction ks arbitrary: st)
  case Nil
  then show ?case by simp
next
  case (Cons k ks)
  show ?case unfolding sweepSessions_step
    by (rule Cons.IH) (rule sweepStep_purged[OF Cons.prems])
qed

lemma sweepSessions_expired:
  assumes "map_of (sessions st) sid = Some s" and "s_expiresAt s \<le> nowTs" and "sid \<in> set ks"
  shows "purged (sweepSessions nowTs ks st) sid"
  using assms
proof (induction ks arbitrary: st)
  case Nil
  then show ?case by simp
next
  case (Cons k ks)
  show ?case
  proof (cases "k = sid")
    case True
    have "purged (sweepStep nowTs k st) sid"
      unfolding True by (rule sweepStep_self[OF Cons.prems(1,2)])
    then show ?thesis unfolding sweepSessions_step by (rule sweepSessions_purged)
  next
    case False
    then have "map_of (sessions (sweepStep nowTs k st)) sid = Some s"
      using Cons.prems(1) by (simp add: sweepStep_other)
    moreover have "sid \<in> set ks" using False Cons.prems(3) by auto
    ultimately show ?thesis
      unfolding sweepSessions_step using Cons.IH Cons.prems(2) by blast
  qed
qed

lemma set_AList_delete: "set (AList.delete k al) = {p \<in> set al. fst p \<noteq> k}"
  by (auto simp: AList.delete_eq)

lemma sweepEntries_inv:
  assumes "\<And>key e. (key, e) \<in> set entries \<Longrightarrow> (key, e) \<in> set todo \<or> nowTs < expiresAt e"
  shows "liveCache nowTs (sweepEntries nowTs todo entries)"
  using assms
proof (induction todo arbitrary: entries)
  case Nil
  then show ?case by (auto simp: liveCache_def list_all_iff)
next
  case (Cons p rest)
  obtain k e where p: "p = (k, e)" by (cases p)
  show ?case unfolding p sweepEntries.simps
  proof (rule Cons.IH)
    fix key e'
    assume a: "(key, e') \<in> set (if expiresAt e \<le> nowTs then AList.delete k entries else entries)"
    show "(key, e') \<in> set rest \<or> nowTs < expiresAt e'"
    proof (cases "expiresAt e \<le> nowTs")
      case True
      with a have "key \<noteq> k" "(key, e') \<in> set entries"
        by (auto simp: set_AList_delete)
      then show ?thesis using Cons.prems[of key e'] p by auto
    next
      case False
      with a have "(key, e') \<in> set entries" by simp
      then show ?thesis using Cons.prems[of key e'] p False by auto
    qed
  qed
qed

lemma sweepEntries_live: "liveCache nowTs (sweepEntries nowTs entries entries)"
  by (rule sweepEntries_inv) simp

lemma sweepPartitions_inv:
  assumes "map_of (sweepPartitions nowTs todo idem) k = Some c"
    and "\<And>k c. map_of idem k = Some c \<Longrightarrow> (k, c) \<in> set todo \<or> liveCache nowTs c"
  shows "liveCache nowTs c"
  using assms
proof (induction todo arbitrary: idem)
  case Nil
  then show ?case by auto
next
  case (Cons p rest)
  obtain sid es where p: "p = (sid, es)" by (cases p)
  let ?es' = "sweepEntries nowTs es es"
  let ?idem' = "if length ?es' = 0 then AList.delete sid idem else AList.update sid ?es' idem"
  have step: "sweepPartitions nowTs (p # rest) idem = sweepPartitions nowTs rest ?idem'"
    unfolding p by (simp add: Let_def)
  have inv: "(k', c') \<in> set rest \<or> liveCache nowTs c'"
    if a: "map_of ?idem' k' = Some c'" for k' c'
  proof (cases "k' = sid")
    case True
    with a have "c' = ?es'"
      by (auto simp: delete_conv' update_conv' split: if_splits)
    then show ?thesis using sweepEntries_live by simp
  next
    case False
    with a have "map_of idem k' = Some c'"
      by (auto simp: delete_conv' update_conv' split: if_splits)
    then show ?thesis using Cons.prems(2)[of k' c'] False p by auto
  qed
  show ?case
    using Cons.IH[of ?idem'] inv Cons.prems(1) unfolding step by blast
qed

lemma sweepPartitions_live:
  "map_of (sweepPartitions nowTs idem idem) k = Some c \<Longrightarrow> liveCache nowTs c"
  by (erule sweepPartitions_inv[of nowTs idem idem]) (auto dest: map_of_SomeD)

lemma sweepPartitions_absent:
  "sid \<notin> fst ` set todo \<Longrightarrow> map_of (sweepPartitions nowTs todo idem) sid = map_of idem sid"
proof (induction todo arbitrary: idem)
  case Nil
  then show ?case by simp
next
  case (Cons p rest)
  obtain k es where p: "p = (k, es)" by (cases p)
  with Cons.prems have ne: "k \<noteq> sid" and r: "sid \<notin> fst ` set rest" by auto
  show ?case unfolding p sweepPartitions.simps Let_def
    using Cons.IH[OF r] ne by (simp add: delete_conv' update_conv')
qed

lemma cleanupExpired_purged:
  assumes "map_of (sessions st) sid = Some s" and "s_expiresAt s \<le> now"
  shows "purged (cleanupExpired now st) sid"
proof -
  let ?st1 = "sweepSessions now (map fst (sessions st)) st"
  have "sid \<in> set (map fst (sessions st))"
    using assms(1) by (auto dest!: map_of_SomeD intro: rev_image_eqI)
  then have p1: "purged ?st1 sid" by (rule sweepSessions_expired[OF assms])
  then have "map_of (idempotency ?st1) sid = None" by (simp add: purged_def)
  then have "sid \<notin> fst ` set (idempotency ?st1)" by (simp add: map_of_eq_None_iff)
  then have "map_of (sweepPartitions now (idempotency ?st1) (idempotency ?st1)) sid = None"
    using p1 by (simp add: sweepPartitions_absent purged_def)
  with p1 show ?thesis by (simp add: cleanupExpired_def purged_def Let_def)
qed

lemma cleanupExpired_live:
  "map_of (idempotency (cleanupExpired now st)) k = Some c \<Longrightarrow> liveCache now c"
  by (simp add: cleanupExpired_def Let_def sweepPartitions_live)

text \<open>
  C5. For a session in the store whose \<^verbatim>\<open>expiresAt\<close> is not after the clock,
  \<^verbatim>\<open>getSession\<close> returns \<^verbatim>\<open>undefined\<close> and leaves a store in which the session record, its
  partition of the turn cache and its pending queue are all gone. \<^verbatim>\<open>cleanupExpired\<close>, on
  its own, leaves a store in which the same three are gone for that session, and in
  which no cache partition that can still be reached holds an expired entry.
\<close>

theorem expired_session_is_purged:
  assumes "map_of (sessions st) sid = Some s" and "s_expiresAt s \<le> now"
  shows "fst (getSession now st sid) = None
         \<and> purged (snd (getSession now st sid)) sid
         \<and> purged (cleanupExpired now st) sid
         \<and> (map_of (idempotency (cleanupExpired now st)) k = Some c \<longrightarrow> liveCache now c)"
  using getSession_expired[OF assms] cleanupExpired_purged[OF assms]
    cleanupExpired_live[of now st k c]
  by blast

lemma ex_store_cleanup:
  "cleanupExpired 100 ex_store
     = \<lparr>sessions = [(''sess_test'', ex_session ''sess_test'' 5000)],
        idempotency =
          [(''sess_test'', [(''key'', ex_entry ''key'' (demo_sha ''socrates:hello'') 9000)])],
        pendingTurns = []\<rparr>"
  by (simp add: cleanupExpired_def ex_store_def ex_session_def ex_entry_def
      AList.delete_eq AList.update.simps)

theorem expired_session_is_purged_witness:
  "map_of (sessions ex_store) ''sess_old'' = Some (ex_session ''sess_old'' 50)
   \<and> s_expiresAt (ex_session ''sess_old'' 50) \<le> 100
   \<and> fst (getSession 100 ex_store ''sess_old'') = None
   \<and> purged (snd (getSession 100 ex_store ''sess_old'')) ''sess_old''
   \<and> purged (cleanupExpired 100 ex_store) ''sess_old''
   \<and> map_of (idempotency (cleanupExpired 100 ex_store)) ''sess_test''
       = Some [(''key'', ex_entry ''key'' (demo_sha ''socrates:hello'') 9000)]
   \<and> liveCache 100 [(''key'', ex_entry ''key'' (demo_sha ''socrates:hello'') 9000)]"
proof -
  have h1: "map_of (sessions ex_store) ''sess_old'' = Some (ex_session ''sess_old'' 50)"
    by (simp add: ex_store_def)
  have h2: "s_expiresAt (ex_session ''sess_old'' 50) \<le> 100"
    by (simp add: ex_session_def)
  have h3: "map_of (idempotency (cleanupExpired 100 ex_store)) ''sess_test''
       = Some [(''key'', ex_entry ''key'' (demo_sha ''socrates:hello'') 9000)]"
    by (simp add: ex_store_cleanup)
  show ?thesis
    using expired_session_is_purged[OF h1 h2, of "''sess_test''"
        "[(''key'', ex_entry ''key'' (demo_sha ''socrates:hello'') 9000)]"] h1 h2 h3
    by simp
qed

subsection \<open>putTurn\<close>

lemma putTurn_replay:
  assumes "validSession now st sid" and "cachedTurn st sid key = Some e"
    and "bodyHash e = hashString sha (stringify b)"
  shows "putTurn sha stringify cfg now st sid key b d = (Inr \<lparr>entry = e, reused = True\<rparr>, st)"
proof -
  obtain s where g: "getSession now st sid = (Some s, st)"
    using getSession_valid[OF assms(1)] by blast
  obtain c where c: "map_of (idempotency st) sid = Some c" "map_of c key = Some e"
    using assms(2) by (auto simp: cachedTurn_def split: option.splits)
  show ?thesis
    using assms(3) by (simp add: putTurn_def g c Let_def)
qed

lemma putTurn_conflict:
  assumes "validSession now st sid" and "cachedTurn st sid key = Some e"
    and "bodyHash e \<noteq> hashString sha (stringify b)"
  shows "putTurn sha stringify cfg now st sid key b d
           = (Inl (Error ''IDEMPOTENCY_BODY_MISMATCH'' (Some ''IDEMPOTENCY_BODY_MISMATCH'')), st)"
proof -
  obtain s where g: "getSession now st sid = (Some s, st)"
    using getSession_valid[OF assms(1)] by blast
  obtain c where c: "map_of (idempotency st) sid = Some c" "map_of c key = Some e"
    using assms(2) by (auto simp: cachedTurn_def split: option.splits)
  show ?thesis
    using assms(3) by (simp add: putTurn_def g c Let_def)
qed

lemma putTurn_fresh:
  assumes "validSession now st sid" and "cachedTurn st sid key = None"
  shows "\<exists>st'. putTurn sha stringify cfg now st sid key b d
                 = (Inr \<lparr>entry = newEntry sha stringify cfg now key b d, reused = False\<rparr>, st')
               \<and> sessions st' = sessions st \<and> pendingTurns st' = pendingTurns st
               \<and> cachedTurn st' sid key = Some (newEntry sha stringify cfg now key b d)"
proof -
  obtain s where g: "getSession now st sid = (Some s, st)"
    using getSession_valid[OF assms(1)] by blast
  show ?thesis
  proof (cases "map_of (idempotency st) sid")
    case None
    then show ?thesis
      by (simp add: putTurn_def g Let_def newEntry_def cachedTurn_def update_conv')
  next
    case (Some c)
    with assms(2) have "map_of c key = None" by (simp add: cachedTurn_def)
    with Some show ?thesis
      by (simp add: putTurn_def g Let_def newEntry_def cachedTurn_def update_conv')
  qed
qed

text \<open>
  C2. For a session that is in the store and has not expired, \<^verbatim>\<open>putTurn\<close> on a key that
  has an entry, with a body whose digest is not the stored one, throws the error whose
  code is \<^verbatim>\<open>IDEMPOTENCY_BODY_MISMATCH\<close> (the specification's IdempotencyConflict) and
  leaves the store as it was: no entry is made, and the stored entry and every other one
  are unchanged.
\<close>

theorem conflict_is_atomic:
  assumes "validSession now st sid" and "cachedTurn st sid key = Some e"
    and "bodyHash e \<noteq> hashString sha (stringify b)"
  shows "fst (putTurn sha stringify cfg now st sid key b d)
           = Inl (Error ''IDEMPOTENCY_BODY_MISMATCH'' (Some ''IDEMPOTENCY_BODY_MISMATCH''))
         \<and> snd (putTurn sha stringify cfg now st sid key b d) = st
         \<and> cachedTurn (snd (putTurn sha stringify cfg now st sid key b d)) sid key = Some e"
  using putTurn_conflict[of now st sid key e sha stringify b cfg d] assms by simp

theorem conflict_is_atomic_witness:
  "validSession 100 ex_store ''sess_test''
   \<and> cachedTurn ex_store ''sess_test'' ''key''
       = Some (ex_entry ''key'' (demo_sha ''socrates:hello'') 9000)
   \<and> bodyHash (ex_entry ''key'' (demo_sha ''socrates:hello'') 9000)
       \<noteq> hashString demo_sha (demo_stringify (ex_body ''plato''))
   \<and> putTurn demo_sha demo_stringify ex_config 100 ex_store ''sess_test'' ''key''
         (ex_body ''plato'') ex_data
       = (Inl (Error ''IDEMPOTENCY_BODY_MISMATCH'' (Some ''IDEMPOTENCY_BODY_MISMATCH'')),
          ex_store)"
proof -
  have h1: "validSession 100 ex_store ''sess_test''"
    by (simp add: validSession_def ex_store_def ex_session_def)
  have h2: "cachedTurn ex_store ''sess_test'' ''key''
       = Some (ex_entry ''key'' (demo_sha ''socrates:hello'') 9000)"
    by (simp add: cachedTurn_def ex_store_def)
  have h3: "bodyHash (ex_entry ''key'' (demo_sha ''socrates:hello'') 9000)
       \<noteq> hashString demo_sha (demo_stringify (ex_body ''plato''))"
    by (simp add: ex_entry_def hashString_def demo_sha_def demo_stringify_def ex_body_def)
  show ?thesis
    using conflict_is_atomic[of 100 ex_store "''sess_test''" "''key''"
        "ex_entry ''key'' (demo_sha ''socrates:hello'') 9000" demo_sha demo_stringify
        "ex_body ''plato''" ex_config ex_data] h1 h2 h3
    by (simp add: prod_eq_iff)
qed


section \<open>Properties of the turn handler\<close>

subsection \<open>Replay of a turn\<close>

lemma acceptTurn_reused: "reused r \<Longrightarrow> acceptTurn sid r app = app"
  by (simp add: acceptTurn_def Let_def)

lemma enqueueTurn_keeps:
  "sessions (enqueueTurn st sid e) = sessions st"
  "idempotency (enqueueTurn st sid e) = idempotency st"
  by (simp_all add: enqueueTurn_def Let_def)

lemma takePendingTurns_keeps:
  "takePendingTurns st sid = (q, st') \<Longrightarrow>
     sessions st' = sessions st \<and> idempotency st' = idempotency st"
  by (auto simp: takePendingTurns_def Let_def)

lemma acceptTurn_keeps:
  "sessions (store (acceptTurn sid r app)) = sessions (store app)"
  "idempotency (store (acceptTurn sid r app)) = idempotency (store app)"
  by (auto simp: acceptTurn_def Let_def enqueueTurn_keeps
      split: option.splits prod.splits dest!: takePendingTurns_keeps)

lemma acceptTurn_counts:
  "\<not> reused r \<Longrightarrow>
     turnCounter (acceptTurn sid r app) = inc (turnCounter app) (fixtureId (entry r))"
  by (simp add: acceptTurn_def Let_def split: option.splits prod.splits)

lemma dispatchTurn_client: "snd (dispatchTurn (mc, client) e) = dispatchClient client e"
  by (simp add: dispatchClient_def dispatchTurn_def Let_def split_def)

lemma dispatchAll_aux:
  "snd (foldl (\<lambda>(mc, acc) client.
                 let (mc', c') = dispatchTurn (mc, client) e in (mc', acc @ [c']))
          (mc, acc) targets)
     = acc @ map (\<lambda>c. dispatchClient c e) targets"
proof (induction targets arbitrary: mc acc)
  case Nil
  then show ?case by simp
next
  case (Cons c targets)
  obtain mc' c' where d: "dispatchTurn (mc, c) e = (mc', c')" by (cases "dispatchTurn (mc, c) e")
  then have c': "c' = dispatchClient c e" using dispatchTurn_client[of mc c e] by simp
  show ?case using Cons.IH[of mc' "acc @ [c']"] by (simp add: d c')
qed

lemma dispatchAll_clients:
  "snd (dispatchAll (mc, targets) e) = map (\<lambda>c. dispatchClient c e) targets"
  using dispatchAll_aux[of e mc "[]" targets] by (simp add: dispatchAll_def)

text \<open>
  The two loops of \<^verbatim>\<open>broadcastTurns\<close>: every subscriber gets every turn, in the order of
  the turns.
\<close>

lemma broadcast_loops:
  "snd (foldl dispatchAll (mc, targets) turns)
     = map (\<lambda>c. foldl dispatchClient c turns) targets"
proof (induction turns arbitrary: mc targets)
  case Nil
  then show ?case by simp
next
  case (Cons e turns)
  obtain mc' where d: "dispatchAll (mc, targets) e = (mc', map (\<lambda>c. dispatchClient c e) targets)"
    using dispatchAll_clients[of mc targets e] by (cases "dispatchAll (mc, targets) e") simp
  show ?case using Cons.IH[of mc' "map (\<lambda>c. dispatchClient c e) targets"]
    by (simp add: d comp_def)
qed

lemma broadcastTurns_clients:
  assumes "hasClients h sid" and "turns \<noteq> []"
  shows "map_of (snd (broadcastTurns (mc, h) sid turns)) sid
           = Some (map (\<lambda>c. foldl dispatchClient c turns) (clientsOf h sid))"
proof -
  obtain targets where t: "map_of h sid = Some targets" "targets \<noteq> []"
    using assms(1) by (auto simp: hasClients_def split: option.splits)
  obtain mc' where f: "foldl dispatchAll (mc, targets) turns
                         = (mc', map (\<lambda>c. foldl dispatchClient c turns) targets)"
    using broadcast_loops[of mc targets turns]
    by (cases "foldl dispatchAll (mc, targets) turns") simp
  show ?thesis
    using assms(2) t by (simp add: broadcastTurns_def clientsOf_def f update_conv')
qed

text \<open>What an accepted turn sets off, apart from the counter.\<close>

lemma acceptTurn_queues:
  assumes "\<not> reused r" and "\<not> hasClients (hub app) sid"
  shows "map_of (pendingTurns (store (acceptTurn sid r app))) sid
           = Some (pendingOf (store app) sid @ [entry r])"
    and "hub (acceptTurn sid r app) = hub app"
  using assms
  by (auto simp: acceptTurn_def Let_def enqueueTurn_def pendingOf_def update_conv'
      split: option.splits)

lemma acceptTurn_broadcasts:
  assumes "\<not> reused r" and "hasClients (hub app) sid"
  shows "map_of (pendingTurns (store (acceptTurn sid r app))) sid = Some []"
    and "map_of (hub (acceptTurn sid r app)) sid
           = Some (map (\<lambda>c. foldl dispatchClient c (pendingOf (store app) sid @ [entry r]))
                     (clientsOf (hub app) sid))"
proof -
  let ?st = "enqueueTurn (store app) sid (entry r)"
  let ?turns = "pendingOf (store app) sid @ [entry r]"
  have tk: "takePendingTurns ?st sid
              = (?turns, ?st\<lparr>pendingTurns := AList.update sid [] (pendingTurns ?st)\<rparr>)"
    by (auto simp: takePendingTurns_def enqueueTurn_def pendingOf_def Let_def update_conv'
        split: option.splits)
  have ne: "?turns \<noteq> []" by simp
  have b: "map_of (snd (broadcastTurns (mc, hub app) sid ?turns)) sid
             = Some (map (\<lambda>c. foldl dispatchClient c ?turns) (clientsOf (hub app) sid))" for mc
    by (rule broadcastTurns_clients[OF assms(2) ne])
  show "map_of (pendingTurns (store (acceptTurn sid r app))) sid = Some []"
    using assms
    by (simp add: acceptTurn_def Let_def tk update_conv' split: option.splits prod.splits)
  show "map_of (hub (acceptTurn sid r app)) sid
           = Some (map (\<lambda>c. foldl dispatchClient c ?turns) (clientsOf (hub app) sid))"
    using assms b
    by (auto simp: acceptTurn_def Let_def tk split: option.splits prod.splits
        dest!: arg_cong[where f = snd])
qed

lemma storeTurn_replay:
  assumes "validSession now (store app) sid" and "cachedTurn (store app) sid key = Some e"
    and "bodyHash e = hashString sha (stringify b)"
  shows "storeTurn sha stringify cfg now sid key b d app
           = (accepted cfg (requestId e) (fixtureId e), app)"
  using putTurn_replay[of now "store app" sid key e sha stringify b cfg d] assms
  by (simp add: storeTurn_def accepted_def acceptTurn_reused)

lemma storeTurn_fresh:
  assumes "validSession now (store app) sid" and "cachedTurn (store app) sid key = None"
  shows "fst (storeTurn sha stringify cfg now sid key b d app)
           = accepted cfg (d_requestId d) (d_fixtureId d)"
    and "sessions (store (snd (storeTurn sha stringify cfg now sid key b d app)))
           = sessions (store app)"
    and "cachedTurn (store (snd (storeTurn sha stringify cfg now sid key b d app))) sid key
           = Some (newEntry sha stringify cfg now key b d)"
    and "turnCounter (snd (storeTurn sha stringify cfg now sid key b d app))
           = inc (turnCounter app) (d_fixtureId d)"
proof -
  obtain st' where p: "putTurn sha stringify cfg now (store app) sid key b d
                 = (Inr \<lparr>entry = newEntry sha stringify cfg now key b d, reused = False\<rparr>, st')"
    and s: "sessions st' = sessions (store app)"
    and c: "cachedTurn st' sid key = Some (newEntry sha stringify cfg now key b d)"
    using putTurn_fresh[of now "store app" sid key sha stringify cfg b d] assms by blast
  let ?r = "\<lparr>entry = newEntry sha stringify cfg now key b d, reused = False\<rparr>"
  have st: "storeTurn sha stringify cfg now sid key b d app
         = (accepted cfg (d_requestId d) (d_fixtureId d), acceptTurn sid ?r (app\<lparr>store := st'\<rparr>))"
    by (simp add: storeTurn_def p accepted_def newEntry_def)
  show "fst (storeTurn sha stringify cfg now sid key b d app)
           = accepted cfg (d_requestId d) (d_fixtureId d)"
    by (simp add: st)
  show "sessions (store (snd (storeTurn sha stringify cfg now sid key b d app)))
           = sessions (store app)"
    by (simp add: st acceptTurn_keeps s)
  show "cachedTurn (store (snd (storeTurn sha stringify cfg now sid key b d app))) sid key
           = Some (newEntry sha stringify cfg now key b d)"
    using c by (simp add: st cachedTurn_def acceptTurn_keeps)
  show "turnCounter (snd (storeTurn sha stringify cfg now sid key b d app))
           = inc (turnCounter app) (d_fixtureId d)"
    by (simp add: st acceptTurn_counts newEntry_def)
qed

lemma storeTurn_fresh_delivery:
  assumes "validSession now (store app) sid" and "cachedTurn (store app) sid key = None"
  shows "\<not> hasClients (hub app) sid \<Longrightarrow>
           map_of (pendingTurns (store (snd (storeTurn sha stringify cfg now sid key b d app)))) sid
             = Some (pendingOf (store app) sid @ [newEntry sha stringify cfg now key b d])
           \<and> hub (snd (storeTurn sha stringify cfg now sid key b d app)) = hub app"
    and "hasClients (hub app) sid \<Longrightarrow>
           map_of (pendingTurns (store (snd (storeTurn sha stringify cfg now sid key b d app)))) sid
             = Some []
           \<and> map_of (hub (snd (storeTurn sha stringify cfg now sid key b d app))) sid
               = Some (map (\<lambda>c. foldl dispatchClient c
                                   (pendingOf (store app) sid
                                    @ [newEntry sha stringify cfg now key b d]))
                         (clientsOf (hub app) sid))"
proof -
  obtain st' where p: "putTurn sha stringify cfg now (store app) sid key b d
                 = (Inr \<lparr>entry = newEntry sha stringify cfg now key b d, reused = False\<rparr>, st')"
    and q: "pendingTurns st' = pendingTurns (store app)"
    using putTurn_fresh[of now "store app" sid key sha stringify cfg b d] assms by blast
  let ?r = "\<lparr>entry = newEntry sha stringify cfg now key b d, reused = False\<rparr>"
  let ?app' = "app\<lparr>store := st'\<rparr>"
  have st: "snd (storeTurn sha stringify cfg now sid key b d app) = acceptTurn sid ?r ?app'"
    by (simp add: storeTurn_def p)
  have same: "pendingOf (store ?app') sid = pendingOf (store app) sid" "hub ?app' = hub app"
    "clientsOf (hub ?app') sid = clientsOf (hub app) sid"
    by (simp_all add: pendingOf_def q)
  have nr: "\<not> reused ?r" by simp
  show "\<not> hasClients (hub app) sid \<Longrightarrow>
           map_of (pendingTurns (store (snd (storeTurn sha stringify cfg now sid key b d app)))) sid
             = Some (pendingOf (store app) sid @ [newEntry sha stringify cfg now key b d])
           \<and> hub (snd (storeTurn sha stringify cfg now sid key b d app)) = hub app"
    using acceptTurn_queues[of ?r ?app' sid] nr same unfolding st by simp
  show "hasClients (hub app) sid \<Longrightarrow>
           map_of (pendingTurns (store (snd (storeTurn sha stringify cfg now sid key b d app)))) sid
             = Some []
           \<and> map_of (hub (snd (storeTurn sha stringify cfg now sid key b d app))) sid
               = Some (map (\<lambda>c. foldl dispatchClient c
                                   (pendingOf (store app) sid
                                    @ [newEntry sha stringify cfg now key b d]))
                         (clientsOf (hub app) sid))"
    using acceptTurn_broadcasts[of ?r ?app' sid] nr same unfolding st by simp
qed

text \<open>
  C1. Replay in any state: for a session that is in the store and has not expired and a
  key whose stored entry has the digest of the body, \<^verbatim>\<open>putTurn\<close> returns the stored
  entry with \<^verbatim>\<open>reused = true\<close> and the store is unchanged; the handler then answers with
  the stored \<^verbatim>\<open>requestId\<close> and \<^verbatim>\<open>fixtureId\<close> and changes nothing in the process: no
  counter, no queue, no subscriber. First submission and replay: when the key has no
  entry, the first call answers with the new request and fixture identifiers and sets
  off the acceptance path: the turn counter of the fixture goes up by one; the new entry
  is put at the end of the session's pending queue; and, when the session has
  subscribers, the queue is drained and every subscriber gets one dispatch of each
  drained turn, the new entry last, while without subscribers the entry stays queued
  and the hub is untouched. A second call for the same session and key, with any body
  of the same digest and any entry data, gets the same answer and the entry of the first
  call with \<^verbatim>\<open>reused = true\<close>, and leaves the whole process state of the first call as
  it is: the counter, the queue and the subscribers have been touched exactly once.
\<close>

theorem idempotent_replay:
  "(validSession now (store app) sid \<and> cachedTurn (store app) sid key = Some e
      \<and> bodyHash e = hashString sha (stringify b) \<longrightarrow>
      putTurn sha stringify cfg now (store app) sid key b d
        = (Inr \<lparr>entry = e, reused = True\<rparr>, store app)
      \<and> storeTurn sha stringify cfg now sid key b d app
          = (accepted cfg (requestId e) (fixtureId e), app))
   \<and> (validSession now1 (store app) sid \<and> validSession now2 (store app) sid
      \<and> cachedTurn (store app) sid key = None
      \<and> hashString sha (stringify b2) = hashString sha (stringify b1) \<longrightarrow>
      (let first = storeTurn sha stringify cfg now1 sid key b1 d1 app;
           second = storeTurn sha stringify cfg now2 sid key b2 d2 (snd first)
       in fst first = accepted cfg (d_requestId d1) (d_fixtureId d1)
          \<and> fst second = fst first
          \<and> snd second = snd first
          \<and> putTurn sha stringify cfg now2 (store (snd first)) sid key b2 d2
              = (Inr \<lparr>entry = newEntry sha stringify cfg now1 key b1 d1, reused = True\<rparr>,
                 store (snd first))
          \<and> turnCounter (snd second) = inc (turnCounter app) (d_fixtureId d1)
          \<and> (\<not> hasClients (hub app) sid \<longrightarrow>
                map_of (pendingTurns (store (snd second))) sid
                  = Some (pendingOf (store app) sid
                          @ [newEntry sha stringify cfg now1 key b1 d1])
                \<and> hub (snd second) = hub app)
          \<and> (hasClients (hub app) sid \<longrightarrow>
                map_of (pendingTurns (store (snd second))) sid = Some []
                \<and> map_of (hub (snd second)) sid
                    = Some (map (\<lambda>c. foldl dispatchClient c
                                        (pendingOf (store app) sid
                                         @ [newEntry sha stringify cfg now1 key b1 d1]))
                              (clientsOf (hub app) sid)))))"
proof -
  have A: "putTurn sha stringify cfg now (store app) sid key b d
        = (Inr \<lparr>entry = e, reused = True\<rparr>, store app)
      \<and> storeTurn sha stringify cfg now sid key b d app
          = (accepted cfg (requestId e) (fixtureId e), app)"
    if "validSession now (store app) sid" "cachedTurn (store app) sid key = Some e"
      "bodyHash e = hashString sha (stringify b)"
    using that putTurn_replay[of now "store app" sid key e sha stringify b cfg d]
      storeTurn_replay[of now app sid key e sha stringify b cfg d]
    by simp
  have B: "(let first = storeTurn sha stringify cfg now1 sid key b1 d1 app;
           second = storeTurn sha stringify cfg now2 sid key b2 d2 (snd first)
       in fst first = accepted cfg (d_requestId d1) (d_fixtureId d1)
          \<and> fst second = fst first
          \<and> snd second = snd first
          \<and> putTurn sha stringify cfg now2 (store (snd first)) sid key b2 d2
              = (Inr \<lparr>entry = newEntry sha stringify cfg now1 key b1 d1, reused = True\<rparr>,
                 store (snd first))
          \<and> turnCounter (snd second) = inc (turnCounter app) (d_fixtureId d1)
          \<and> (\<not> hasClients (hub app) sid \<longrightarrow>
                map_of (pendingTurns (store (snd second))) sid
                  = Some (pendingOf (store app) sid
                          @ [newEntry sha stringify cfg now1 key b1 d1])
                \<and> hub (snd second) = hub app)
          \<and> (hasClients (hub app) sid \<longrightarrow>
                map_of (pendingTurns (store (snd second))) sid = Some []
                \<and> map_of (hub (snd second)) sid
                    = Some (map (\<lambda>c. foldl dispatchClient c
                                        (pendingOf (store app) sid
                                         @ [newEntry sha stringify cfg now1 key b1 d1]))
                              (clientsOf (hub app) sid))))"
    if v1: "validSession now1 (store app) sid" and v2: "validSession now2 (store app) sid"
      and fr: "cachedTurn (store app) sid key = None"
      and dg: "hashString sha (stringify b2) = hashString sha (stringify b1)"
  proof -
    let ?first = "storeTurn sha stringify cfg now1 sid key b1 d1 app"
    let ?app1 = "snd ?first"
    let ?e = "newEntry sha stringify cfg now1 key b1 d1"
    note f = storeTurn_fresh[of now1 app sid key sha stringify cfg b1 d1, OF v1 fr]
    have v2': "validSession now2 (store ?app1) sid"
      using v2 f(2) by (simp add: validSession_def)
    have h: "bodyHash ?e = hashString sha (stringify b2)"
      using dg by (simp add: newEntry_def)
    have r: "storeTurn sha stringify cfg now2 sid key b2 d2 ?app1
               = (accepted cfg (requestId ?e) (fixtureId ?e), ?app1)"
      using storeTurn_replay[of now2 ?app1 sid key ?e sha stringify b2 cfg d2] v2' f(3) h
      by simp
    have p: "putTurn sha stringify cfg now2 (store ?app1) sid key b2 d2
               = (Inr \<lparr>entry = ?e, reused = True\<rparr>, store ?app1)"
      using putTurn_replay[of now2 "store ?app1" sid key ?e sha stringify b2 cfg d2] v2' f(3) h
      by simp
    have ids: "requestId ?e = d_requestId d1" "fixtureId ?e = d_fixtureId d1"
      by (simp_all add: newEntry_def)
    note dl = storeTurn_fresh_delivery[of now1 app sid key sha stringify cfg b1 d1, OF v1 fr]
    show ?thesis
      unfolding Let_def r using f(1) f(4) p ids dl by simp
  qed
  from A B show ?thesis by blast
qed

lemma ex_dispatch:
  "dispatchClient ex_client
     (newEntry demo_sha demo_stringify ex_config 100 ''key2'' (ex_body ''socrates'') ex_data)
   = ex_client
       \<lparr>res := [Message (StageData ''stage.stop_idle'' (StopIdlePayload ''new_turn''))],
        timers :=
          [\<lparr>delay = 100, observe = Some (''audio'', 100),
            payload = TimelineData
                        \<lparr>turn_id = ''req_test'', env_session_id = ''sess_test'',
                         env_swap_points = [], env_tracks = [], env_sidecar = None,
                         env_sources_badge = False, env_citations_ref = None,
                         env_share_ref = None\<rparr>\<rparr>,
           \<lparr>delay = 4100, observe = None,
            payload = StageData ''stage.play_idle''
                        (PlayIdlePayload 4000 ''figures/socrates/stage.mp4'')\<rparr>]\<rparr>"
  by (simp add: dispatchClient_def dispatchTurn_def Let_def newEntry_def ex_data_def
      ex_timeline_def ex_client_def missTts_def missClip_def truthyFlag_def hasSwapPoints_def
      idleAfterMs_def computeTimelineDuration_def writeMessage_def writeEvent_def
      pushTimer_def timelineEnvelope_def)

theorem idempotent_replay_witness:
  "validSession 100 (store ex_emulator) ''sess_test''
   \<and> validSession 200 (store ex_emulator) ''sess_test''
   \<and> cachedTurn (store ex_emulator) ''sess_test'' ''key2'' = None
   \<and> cachedTurn (store ex_emulator) ''sess_test'' ''key''
       = Some (ex_entry ''key'' (demo_sha ''socrates:hello'') 9000)
   \<and> bodyHash (ex_entry ''key'' (demo_sha ''socrates:hello'') 9000)
       = hashString demo_sha (demo_stringify (ex_body ''socrates''))
   \<and> storeTurn demo_sha demo_stringify ex_config 100 ''sess_test'' ''key''
         (ex_body ''socrates'') ex_data ex_emulator
       = (accepted ex_config ''req_test'' ''fx_test'', ex_emulator)
   \<and> \<not> hasClients (hub ex_emulator) ''sess_test''
   \<and> (let first = storeTurn demo_sha demo_stringify ex_config 100 ''sess_test'' ''key2''
                     (ex_body ''socrates'') ex_data ex_emulator;
           second = storeTurn demo_sha demo_stringify ex_config 200 ''sess_test'' ''key2''
                      (ex_body ''socrates'') (ex_data\<lparr>d_requestId := ''req_other''\<rparr>) (snd first)
       in fst second = accepted ex_config ''req_test'' ''fx_test''
          \<and> snd second = snd first
          \<and> turnCounter (snd second) ''fx_test'' = 1
          \<and> map_of (pendingTurns (store (snd second))) ''sess_test''
              = Some [newEntry demo_sha demo_stringify ex_config 100 ''key2''
                        (ex_body ''socrates'') ex_data]
          \<and> hub (snd second) = [])
   \<and> hasClients (hub (ex_emulator\<lparr>hub := [(''sess_test'', [ex_client])]\<rparr>)) ''sess_test''
   \<and> (let first = storeTurn demo_sha demo_stringify ex_config 100 ''sess_test'' ''key2''
                     (ex_body ''socrates'') ex_data
                     (ex_emulator\<lparr>hub := [(''sess_test'', [ex_client])]\<rparr>);
           second = storeTurn demo_sha demo_stringify ex_config 200 ''sess_test'' ''key2''
                      (ex_body ''socrates'') (ex_data\<lparr>d_requestId := ''req_other''\<rparr>) (snd first)
       in snd second = snd first
          \<and> turnCounter (snd second) ''fx_test'' = 1
          \<and> map_of (pendingTurns (store (snd second))) ''sess_test'' = Some []
          \<and> map (\<lambda>c. (res c, map delay (timers c))) (clientsOf (hub (snd second)) ''sess_test'')
              = [([Message (StageData ''stage.stop_idle'' (StopIdlePayload ''new_turn''))],
                  [100, 4100])])"
proof -
  let ?hubbed = "ex_emulator\<lparr>hub := [(''sess_test'', [ex_client])]\<rparr>"
  have h1: "validSession 100 (store ex_emulator) ''sess_test''"
    and h2: "validSession 200 (store ex_emulator) ''sess_test''"
    by (simp_all add: validSession_def ex_emulator_def ex_store_def ex_session_def)
  have h3: "cachedTurn (store ex_emulator) ''sess_test'' ''key2'' = None"
    and h4: "cachedTurn (store ex_emulator) ''sess_test'' ''key''
       = Some (ex_entry ''key'' (demo_sha ''socrates:hello'') 9000)"
    by (simp_all add: cachedTurn_def ex_emulator_def ex_store_def)
  have h5: "bodyHash (ex_entry ''key'' (demo_sha ''socrates:hello'') 9000)
       = hashString demo_sha (demo_stringify (ex_body ''socrates''))"
    by (simp add: ex_entry_def hashString_def demo_stringify_def ex_body_def)
  have h6: "\<not> hasClients (hub ex_emulator) ''sess_test''"
    and h7: "hasClients (hub ?hubbed) ''sess_test''"
    by (simp_all add: hasClients_def ex_emulator_def)
  have st: "store ?hubbed = store ex_emulator" "turnCounter ?hubbed = turnCounter ex_emulator"
    by simp_all
  have ids: "requestId (ex_entry ''key'' (demo_sha ''socrates:hello'') 9000) = ''req_test''"
    "fixtureId (ex_entry ''key'' (demo_sha ''socrates:hello'') 9000) = ''fx_test''"
    "d_requestId ex_data = ''req_test''" "d_fixtureId ex_data = ''fx_test''"
    "turnCounter ex_emulator = (\<lambda>l. 0)" "hub ex_emulator = []"
    "pendingOf (store ex_emulator) ''sess_test'' = []"
    "clientsOf (hub ?hubbed) ''sess_test'' = [ex_client]"
    by (simp_all add: ex_entry_def ex_data_def ex_emulator_def pendingOf_def clientsOf_def
        ex_store_def)
  note a = idempotent_replay[where now = 100 and app = ex_emulator and sid = "''sess_test''"
        and key = "''key''" and e = "ex_entry ''key'' (demo_sha ''socrates:hello'') 9000"
        and sha = demo_sha and stringify = demo_stringify and b = "ex_body ''socrates''"
        and cfg = ex_config and d = ex_data]
  note b = idempotent_replay[where app = ex_emulator and sid = "''sess_test''"
        and key = "''key2''" and sha = demo_sha and stringify = demo_stringify
        and cfg = ex_config and ?now1.0 = 100 and ?now2.0 = 200
        and ?b1.0 = "ex_body ''socrates''" and ?b2.0 = "ex_body ''socrates''"
        and ?d1.0 = ex_data and ?d2.0 = "ex_data\<lparr>d_requestId := ''req_other''\<rparr>"]
  note c = idempotent_replay[where app = ?hubbed and sid = "''sess_test''"
        and key = "''key2''" and sha = demo_sha and stringify = demo_stringify
        and cfg = ex_config and ?now1.0 = 100 and ?now2.0 = 200
        and ?b1.0 = "ex_body ''socrates''" and ?b2.0 = "ex_body ''socrates''"
        and ?d1.0 = ex_data and ?d2.0 = "ex_data\<lparr>d_requestId := ''req_other''\<rparr>"]
  have A: "storeTurn demo_sha demo_stringify ex_config 100 ''sess_test'' ''key''
         (ex_body ''socrates'') ex_data ex_emulator
       = (accepted ex_config ''req_test'' ''fx_test'', ex_emulator)"
    using a h1 h4 h5 by (simp add: ids)
  have B: "(let first = storeTurn demo_sha demo_stringify ex_config 100 ''sess_test'' ''key2''
                     (ex_body ''socrates'') ex_data ex_emulator;
           second = storeTurn demo_sha demo_stringify ex_config 200 ''sess_test'' ''key2''
                      (ex_body ''socrates'') (ex_data\<lparr>d_requestId := ''req_other''\<rparr>) (snd first)
       in fst second = accepted ex_config ''req_test'' ''fx_test''
          \<and> snd second = snd first
          \<and> turnCounter (snd second) ''fx_test'' = 1
          \<and> map_of (pendingTurns (store (snd second))) ''sess_test''
              = Some [newEntry demo_sha demo_stringify ex_config 100 ''key2''
                        (ex_body ''socrates'') ex_data]
          \<and> hub (snd second) = [])"
    using b h1 h2 h3 h6 by (auto simp add: Let_def ids inc_def)
  have C: "(let first = storeTurn demo_sha demo_stringify ex_config 100 ''sess_test'' ''key2''
                     (ex_body ''socrates'') ex_data ?hubbed;
           second = storeTurn demo_sha demo_stringify ex_config 200 ''sess_test'' ''key2''
                      (ex_body ''socrates'') (ex_data\<lparr>d_requestId := ''req_other''\<rparr>) (snd first)
       in snd second = snd first
          \<and> turnCounter (snd second) ''fx_test'' = 1
          \<and> map_of (pendingTurns (store (snd second))) ''sess_test'' = Some []
          \<and> map (\<lambda>c. (res c, map delay (timers c))) (clientsOf (hub (snd second)) ''sess_test'')
              = [([Message (StageData ''stage.stop_idle'' (StopIdlePayload ''new_turn''))],
                  [100, 4100])])"
    using c h1 h2 h3 h7 unfolding st
    by (auto simp add: Let_def ids inc_def ex_dispatch clientsOf_def)
  from h1 h2 h3 h4 h5 h6 h7 A B C show ?thesis by blast
qed

subsection \<open>The session of a turn\<close>

lemma turn_unknown_generated_session:
  assumes "truthyStr (header_idempotency_key req)" and "turnSchema isUrl (body req)"
    and "map_of (sessions (store app)) (''sess_'' @ uuid_session rs) = None"
  shows "postSessionTurn sha ops stringify isUrl toISO cfg reg now rs req app
           = (ErrorResponse 404 ''EMU_SESSION_UNKNOWN'' (Some ''Session not found or expired''),
              app)"
  using assms
  by (simp add: postSessionTurn_def Let_def getSession_absent)

text \<open>
  C3 fails on the code. A session is started and gets the identifier \<open>sess_a\<close>; at time
  1000 it is in the store and has not expired. A turn request names \<open>sess_a\<close> in the
  query, the body and both headers, where \<^verbatim>\<open>extractSessionId\<close> would find it. The
  handler does not call \<^verbatim>\<open>extractSessionId\<close>: it looks up \<^verbatim>\<open>sess_\<close> followed by a fresh
  \<^verbatim>\<open>randomUUID()\<close>, here \<open>b\<close>, and answers 404 \<^verbatim>\<open>EMU_SESSION_UNKNOWN\<close>.
\<close>

theorem turn_ignores_caller_session:
  "validSession 1000 (store ex_started) ''sess_a''
   \<and> extractSessionId ex_turn_request (body ex_turn_request) = Some ''sess_a''
   \<and> fst (postSessionTurn sha ops stringify isUrl toISO ex_config reg 1000 ex_randomness
            ex_turn_request ex_started)
       = ErrorResponse 404 ''EMU_SESSION_UNKNOWN'' (Some ''Session not found or expired'')"
proof -
  have s: "sessions (store ex_started)
             = [(''sess_a'', \<lparr>s_id = ''sess_a'', s_token = ''sess_a'', s_mode = ''portrait_chat'',
                              s_personas = [(''socrates'', None)], s_createdAt = 0,
                              s_expiresAt = 1800000\<rparr>)]"
    by (simp add: ex_started_def postSessionStart_def sessionStartSchema_def createSession_def
        ex_config_def ex_empty_def Let_def)
  have v: "validSession 1000 (store ex_started) ''sess_a''"
    by (simp add: validSession_def s)
  have x: "extractSessionId ex_turn_request (body ex_turn_request) = Some ''sess_a''"
    by (simp add: extractSessionId_def ex_turn_request_def)
  have k: "truthyStr (header_idempotency_key ex_turn_request)"
    by (simp add: ex_turn_request_def truthyStr_def)
  have t: "turnSchema isUrl (body ex_turn_request)"
    by (simp add: turnSchema_def ex_turn_request_def ex_body_def)
  have n: "map_of (sessions (store ex_started)) (''sess_'' @ uuid_session ex_randomness) = None"
    by (simp add: s ex_randomness_def)
  show ?thesis
    using v x turn_unknown_generated_session[OF k t n] by simp
qed

subsection \<open>Rendering with a clip miss\<close>

lemma setMeta_fields:
  "tracks (setMeta k v t) = tracks t" "swap_points (setMeta k v t) = swap_points t"
  "meta (setMeta k v t) = Some (AList.update k v (case meta t of Some m \<Rightarrow> m | None \<Rightarrow> []))"
  by (simp_all add: setMeta_def)

lemma clipMissRendered_setMeta:
  "clipMissRendered t \<Longrightarrow> k \<noteq> ''miss_clip'' \<Longrightarrow> clipMissRendered (setMeta k v t)"
  by (auto simp: clipMissRendered_def setMeta_fields update_conv' split: option.splits)

lemma applyFixtureToggles_clip:
  assumes "truthyFlag (clip m)"
  shows "clipMissRendered (applyFixtureToggles cfg now toISO fixture m)"
proof -
  have base: "clipMissRendered
          (setMeta ''miss_clip'' (JBool True)
             (t\<lparr>tracks := filter (\<lambda>track. track_type track \<noteq> ''video'') (tracks t),
               swap_points := Some []\<rparr>))" for t
    by (simp add: clipMissRendered_def setMeta_fields update_conv' filter_filter)
  have tts: "clipMissRendered (if c then setMeta ''miss_tts'' (JBool True) t else t)"
    if "clipMissRendered t" for c t
    using that by (simp add: clipMissRendered_setMeta)
  have pair: "clipMissRendered (if c then setMeta ''pair_audio_only'' (JBool True) t else t)"
    if "clipMissRendered t" for c t
    using that by (simp add: clipMissRendered_setMeta)
  show ?thesis
    unfolding applyFixtureToggles_def Let_def if_P[OF assms]
    by (intro pair tts base)
qed

text \<open>
  C8. A fixture rendered with the clip miss flag set has no track of type \<^verbatim>\<open>video\<close>, an
  empty list of swap points and \<^verbatim>\<open>miss_clip = true\<close> in its metadata. With a clip-miss
  percentage of 100 (or more) the miss test is true for every draw, so the timeline the
  turn handler renders has these properties whatever is drawn.
\<close>

theorem clip_miss_rendering:
  "(truthyFlag (clip m) \<longrightarrow> clipMissRendered (applyFixtureToggles cfg now toISO fixture m))
   \<and> (100 \<le> pct \<longrightarrow> percentToHit rnd pct)
   \<and> (missPct_clip cfg = 100 \<longrightarrow>
        clipMissRendered
          (applyFixtureToggles cfg now toISO fixture
             \<lparr>tts = Some (percentToHit rnd1 (missPct_tts cfg)),
              clip = Some (percentToHit rnd2 (missPct_clip cfg))\<rparr>))"
proof -
  have p: "percentToHit r pct'" if "100 \<le> pct'" for r pct'
    using that by (simp add: percentToHit_def)
  have "clipMissRendered
          (applyFixtureToggles cfg now toISO fixture
             \<lparr>tts = Some (percentToHit rnd1 (missPct_tts cfg)),
              clip = Some (percentToHit rnd2 (missPct_clip cfg))\<rparr>)"
    if "missPct_clip cfg = 100"
    by (rule applyFixtureToggles_clip) (simp add: truthyFlag_def p that)
  then show ?thesis
    using applyFixtureToggles_clip[of m cfg now toISO fixture] p[of pct rnd] by blast
qed

theorem clip_miss_rendering_witness:
  "truthyFlag (clip \<lparr>tts = Some False, clip = Some True\<rparr>) \<and> (100::real) \<le> 100
   \<and> missPct_clip (ex_config\<lparr>missPct_clip := 100\<rparr>) = 100
   \<and> percentToHit (99 / 100) 100
   \<and> tracks (applyFixtureToggles ex_config 0 (\<lambda>t. ''later'') ex_fixture
               \<lparr>tts = Some False, clip = Some True\<rparr>)
       = [\<lparr>track_type = ''audio'', track_id = ''a1'', source_url = Some ''/media/a1.wav'',
           offset = Some 0, duration = Some 3\<rparr>]
   \<and> clipMissRendered (applyFixtureToggles ex_config 0 (\<lambda>t. ''later'') ex_fixture
                         \<lparr>tts = Some False, clip = Some True\<rparr>)
   \<and> clipMissRendered
       (applyFixtureToggles (ex_config\<lparr>missPct_clip := 100\<rparr>) 0 (\<lambda>t. ''later'') ex_fixture
          \<lparr>tts = Some (percentToHit (1 / 2) (missPct_tts (ex_config\<lparr>missPct_clip := 100\<rparr>))),
           clip = Some (percentToHit (1 / 2) (missPct_clip (ex_config\<lparr>missPct_clip := 100\<rparr>)))\<rparr>)"
proof -
  have t: "tracks (applyFixtureToggles ex_config 0 (\<lambda>t. ''later'') ex_fixture
               \<lparr>tts = Some False, clip = Some True\<rparr>)
       = [\<lparr>track_type = ''audio'', track_id = ''a1'', source_url = Some ''/media/a1.wav'',
           offset = Some 0, duration = Some 3\<rparr>]"
    by (simp add: applyFixtureToggles_def Let_def ex_config_def ex_fixture_def ex_timeline_def
        cloneTimeline_def truthyFlag_def setMeta_def)
  show ?thesis
    using clip_miss_rendering[of "\<lparr>tts = Some False, clip = Some True\<rparr>" ex_config 0
        "\<lambda>t. ''later''" ex_fixture 100 "99 / 100"]
      clip_miss_rendering[of "\<lparr>tts = Some False, clip = Some True\<rparr>"
        "ex_config\<lparr>missPct_clip := 100\<rparr>" 0 "\<lambda>t. ''later''" ex_fixture 100 "99 / 100"
        "1 / 2" "1 / 2"] t
    by (simp add: truthyFlag_def)
qed


section \<open>Properties of fixtures.ts\<close>

subsection \<open>The override table\<close>



subsection \<open>The persona index\<close>






subsection \<open>The ASCII instance of the examples\<close>













section \<open>Properties of sse.ts\<close>

lemma runTimers_writes_aux:
  "\<not> closed c \<Longrightarrow>
     res (foldl (\<lambda>c t. writeMessage c (payload t)) c ts)
       = res c @ map (\<lambda>t. Message (payload t)) ts
     \<and> \<not> closed (foldl (\<lambda>c t. writeMessage c (payload t)) c ts)"
proof (induction ts arbitrary: c)
  case Nil
  then show ?case by simp
next
  case (Cons t ts)
  have "\<not> closed (writeMessage c (payload t))"
    using Cons.prems by (simp add: writeMessage_def)
  from Cons.IH[OF this] show ?case
    using Cons.prems by (simp add: writeMessage_def)
qed

text \<open>The timers of an open subscriber write their frames in the order they fire.\<close>

lemma runTimers_writes:
  "\<not> closed c \<Longrightarrow>
     res (runTimers c) = res c @ map (\<lambda>t. Message (payload t)) (fireOrder (timers c))"
  using runTimers_writes_aux[of "c\<lparr>timers := []\<rparr>" "fireOrder (timers c)"]
  by (simp add: runTimers_def)

lemma map_insort_key:
  "map f (insort_key (\<lambda>x. k (f x)) x xs) = insort_key k (f x) (map f xs)"
  by (induction xs) simp_all

lemma map_sort_key: "map f (sort_key (\<lambda>x. k (f x)) xs) = sort_key k (map f xs)"
  by (induction xs) (simp_all add: map_insort_key)

lemma dispatchTurn_open:
  assumes "\<not> closed client"
  shows "map spec_signal (res (snd (dispatchTurn (mc, client\<lparr>res := [], timers := []\<rparr>) e)))
           = (if missTts e then [SigMiss ''tts''] else [])
             @ (if missClip e then [SigMiss ''clip''] else [])
             @ [SigStopIdle]"
    and "map (\<lambda>t. (delay t, spec_signal (Message (payload t))))
             (timers (snd (dispatchTurn (mc, client\<lparr>res := [], timers := []\<rparr>) e)))
           = [(audio (latencyMs e), SigTimeline)]
             @ (if hasSwapPoints e then [(clip_ms (latencyMs e), SigSwap)] else [])
             @ [(audio (latencyMs e) + idleAfterMs e, SigPlayIdle)]"
    and "\<not> closed (snd (dispatchTurn (mc, client\<lparr>res := [], timers := []\<rparr>) e))"
  using assms
  by (simp_all add: dispatchTurn_def Let_def writeEvent_def writeMessage_def pushTimer_def)

text \<open>
  The signals of a turn on an open subscriber: the miss signals and the stop of the idle
  presentation at once, then the timeline, the swap and the idle signal as their timers
  fire.
\<close>

lemma turnSignals_open:
  assumes "\<not> closed client"
  shows "turnSignals client e
           = (if missTts e then [(0, SigMiss ''tts'')] else [])
             @ (if missClip e then [(0, SigMiss ''clip'')] else [])
             @ [(0, SigStopIdle)]
             @ sort_key (\<lambda>p. timeoutMs (fst p))
                 ([(audio (latencyMs e), SigTimeline)]
                  @ (if hasSwapPoints e then [(clip_ms (latencyMs e), SigSwap)] else [])
                  @ [(audio (latencyMs e) + idleAfterMs e, SigPlayIdle)])"
proof -
  let ?c1 = "snd (dispatchTurn (\<lambda>l. 0, client\<lparr>res := [], timers := []\<rparr>) e)"
  let ?pair = "\<lambda>t. (delay t, spec_signal (Message (payload t)))"
  note d = dispatchTurn_open[OF assms, of "\<lambda>l. 0" e]
  have "turnSignals client e
          = map (\<lambda>s. (0, s)) (map spec_signal (res ?c1))
            @ map ?pair (fireOrder (timers ?c1))"
    using d(3) by (simp add: turnSignals_def turnTrace_def Let_def comp_def)
  also have "map ?pair (fireOrder (timers ?c1))
               = sort_key (\<lambda>p. timeoutMs (fst p)) (map ?pair (timers ?c1))"
    unfolding fireOrder_def
    using map_sort_key[of ?pair "\<lambda>p. timeoutMs (fst p)" "timers ?c1"] by simp
  finally show ?thesis
    unfolding d(1) d(2) by simp
qed

text \<open>\<^verbatim>\<open>dispatchTurn\<close> in \<^verbatim>\<open>sse.ts\<close> has no write of a \<^verbatim>\<open>turn_started\<close> event.\<close>

lemma dispatchTurn_writes_no_turn_started:
  assumes "\<not> closed client"
  shows "(d, SigTurnStarted) \<notin> set (turnSignals client e)"
  unfolding turnSignals_open[OF assms] by auto

lemma ex_turn_facts:
  "latencyMs (ex_turn i) = \<lparr>audio = 600, clip_ms = 1200\<rparr>"
  "hasSwapPoints (ex_turn i)" "\<not> missTts (ex_turn i)" "\<not> missClip (ex_turn i)"
  "idleAfterMs (ex_turn (Some n)) = n" "idleAfterMs (ex_turn None) = 3000"
  by (simp_all add: ex_turn_def newEntry_def withJitter_def ex_config_def hasSwapPoints_def
      missTts_def missClip_def truthyFlag_def idleAfterMs_def applyFixtureToggles_def Let_def
      setMeta_def cloneTimeline_def ex_fixture_def ex_timeline_def nullish_def
      estimateTimelineDurationMs_def trackEndMs_def)

text \<open>
  C4, as the specification states it, fails. The turn of the example has a swap point,
  latencies 600 and 1200 and an idle signal due 100 ms after the audio: the idle signal
  is sent 700 ms after the turn, before the swap, which the specification puts before
  it. (No frame of the turn is a \<^verbatim>\<open>turn_started\<close> event either.)
\<close>

theorem delivery_order_counterexample:
  "\<not> closed ex_client
   \<and> turnSignals ex_client (ex_turn (Some 100))
       = [(0, SigStopIdle), (600, SigTimeline), (700, SigPlayIdle), (1200, SigSwap)]
   \<and> spec_delivery (ex_turn (Some 100))
       = [(0, SigTurnStarted), (0, SigStopIdle), (600, SigTimeline), (1200, SigSwap),
          (700, SigPlayIdle)]
   \<and> turnSignals ex_client (ex_turn (Some 100)) \<noteq> spec_delivery (ex_turn (Some 100))
   \<and> withoutTurnStarted (turnSignals ex_client (ex_turn (Some 100)))
       \<noteq> withoutTurnStarted (spec_delivery (ex_turn (Some 100)))"
proof -
  have o: "\<not> closed ex_client" by (simp add: ex_client_def)
  have t: "turnSignals ex_client (ex_turn (Some 100))
       = [(0, SigStopIdle), (600, SigTimeline), (700, SigPlayIdle), (1200, SigSwap)]"
    unfolding turnSignals_open[OF o] by (simp add: ex_turn_facts timeoutMs_def)
  have s: "spec_delivery (ex_turn (Some 100))
       = [(0, SigTurnStarted), (0, SigStopIdle), (600, SigTimeline), (1200, SigSwap),
          (700, SigPlayIdle)]"
    by (simp add: spec_delivery_def ex_turn_facts)
  show ?thesis
    unfolding t s using o by (simp add: withoutTurnStarted_def)
qed

text \<open>
  C4, amended. For a subscriber that is open and a turn whose three timers fire in the
  order they are set, the signals sent for the turn, leaving \<^verbatim>\<open>turn_started\<close> aside, are
  those of the specification in its order: the miss signal for tts and the one for clip
  when the flag is set, the stop of the idle presentation, the timeline after the audio
  latency, the swap after the clip latency when the entry has a swap point, and the
  idle signal after the audio latency plus the idle delay.
\<close>

theorem delivery_order:
  assumes "\<not> closed client" and "delaysInOrder e"
  shows "withoutTurnStarted (turnSignals client e) = withoutTurnStarted (spec_delivery e)"
proof (cases "hasSwapPoints e")
  case True
  with assms(2) have
    "timeoutMs (audio (latencyMs e)) \<le> timeoutMs (clip_ms (latencyMs e))"
    "timeoutMs (clip_ms (latencyMs e)) \<le> timeoutMs (audio (latencyMs e) + idleAfterMs e)"
    by (simp_all add: delaysInOrder_def Let_def)
  then show ?thesis
    unfolding turnSignals_open[OF assms(1)] spec_delivery_def withoutTurnStarted_def
    using True by simp
next
  case False
  with assms(2) have
    "timeoutMs (audio (latencyMs e)) \<le> timeoutMs (audio (latencyMs e) + idleAfterMs e)"
    by (simp add: delaysInOrder_def Let_def)
  then show ?thesis
    unfolding turnSignals_open[OF assms(1)] spec_delivery_def withoutTurnStarted_def
    using False by simp
qed

theorem delivery_order_witness:
  "\<not> closed ex_client \<and> delaysInOrder (ex_turn None)
   \<and> withoutTurnStarted (turnSignals ex_client (ex_turn None))
       = [(0, SigStopIdle), (600, SigTimeline), (1200, SigSwap), (3600, SigPlayIdle)]
   \<and> withoutTurnStarted (spec_delivery (ex_turn None))
       = [(0, SigStopIdle), (600, SigTimeline), (1200, SigSwap), (3600, SigPlayIdle)]"
proof -
  have o: "\<not> closed ex_client" by (simp add: ex_client_def)
  have d: "delaysInOrder (ex_turn None)"
    by (simp add: delaysInOrder_def Let_def ex_turn_facts timeoutMs_def)
  have s: "withoutTurnStarted (spec_delivery (ex_turn None))
       = [(0, SigStopIdle), (600, SigTimeline), (1200, SigSwap), (3600, SigPlayIdle)]"
    by (simp add: withoutTurnStarted_def spec_delivery_def ex_turn_facts)
  show ?thesis
    using delivery_order[OF o d] o d s by simp
qed


end
